theory Spec2Isabelle
  imports Main "HOL-Library.List_Lexorder" "HOL-Library.Char_ord"
begin

section \<open>Data model\<close>

text \<open>
  Go strings are byte strings and compare bytewise; \<open>string\<close> (a list of
  \<open>char\<close>) with the lexicographic order of \<open>List_Lexorder\<close> over
  \<open>Char_ord\<close> is that order, so \<open>sort\<close> on a \<open>string list\<close> is
  \<open>sort.Strings\<close>.

  A Go map is an association list whose keys are distinct; the order of the list
  stands for the order in which one \<open>range\<close> statement happens to visit the
  entries (Go leaves it unspecified). A pointer that the source tests against
  \<open>nil\<close>, or that the tests set to \<open>nil\<close>, is an \<open>option\<close>;
  dereferencing \<open>None\<close> is the run-time panic \<open>NilPointerDereference\<close>.
\<close>

datatype panic = NilPointerDereference | NotACollectionType | NotAnObjectType

text \<open>
  The type expressions of go-cty, as far as \<open>getAttributeType\<close> tells them apart:
  the three primitive types, the collection types, object and tuple types, the dynamic
  pseudo-type, capsule types, and \<open>cty.NilType\<close> (the zero \<open>Type\<close>, which an
  attribute without a type has). The attribute types of an object type are a Go map.
\<close>

datatype primitiveTypeKind = primitiveTypeBool | primitiveTypeNumber | primitiveTypeString

datatype cty_Type =
    cty_Primitive primitiveTypeKind
  | cty_List cty_Type | cty_Set cty_Type | cty_Map cty_Type
  | cty_Object "(string \<times> cty_Type) list"
  | cty_Tuple "cty_Type list"
  | cty_DynamicPseudoType
  | cty_Capsule string
  | cty_NilType

abbreviation cty_String :: cty_Type where "cty_String \<equiv> cty_Primitive primitiveTypeString"
abbreviation cty_Number :: cty_Type where "cty_Number \<equiv> cty_Primitive primitiveTypeNumber"
abbreviation cty_Bool :: cty_Type where "cty_Bool \<equiv> cty_Primitive primitiveTypeBool"

text \<open>terraform-json's schema structures, with the fields the program reads.\<close>

record SchemaAttribute =
  AttributeType :: cty_Type
  Description :: string
  Required :: bool
  Optional :: bool
  Computed :: bool

datatype SchemaBlock = SchemaBlock
    (Attributes: "(string \<times> SchemaAttribute option) list")
    (NestedBlocks: "(string \<times> SchemaBlockType option) list")
    (BlockDescription: string)
and SchemaBlockType = SchemaBlockType
    (NestingMode: string)
    (Block: "SchemaBlock option")
    (MinItems: nat)
    (MaxItems: nat)

record Schema =
  Schema_Block :: "SchemaBlock option"

record ProviderSchema =
  ResourceSchemas :: "(string \<times> Schema) list"

record ProviderSchemas =
  FormatVersion :: string
  Schemas :: "(string \<times> ProviderSchema) list"

section \<open>Schema normalizer (schema.go)\<close>

definition computedOnly :: "SchemaAttribute \<Rightarrow> bool" where
  "computedOnly attrSchema \<longleftrightarrow>
     Computed attrSchema \<and> \<not> Optional attrSchema \<and> \<not> Required attrSchema"

text \<open>
  The loop \<open>for attrName, attrSchema := range block.Attributes\<close> that deletes the
  computed-only entries; reading \<open>attrSchema.Computed\<close> through a nil pointer panics.
\<close>

fun removeComputedOnly ::
  "(string \<times> SchemaAttribute option) list \<Rightarrow> panic + (string \<times> SchemaAttribute option) list" where
  "removeComputedOnly [] = Inr []"
| "removeComputedOnly ((attrName, None) # rest) = Inl NilPointerDereference"
| "removeComputedOnly ((attrName, Some attrSchema) # rest) =
     (case removeComputedOnly rest of
        Inl p \<Rightarrow> Inl p
      | Inr rest' \<Rightarrow>
          if computedOnly attrSchema then Inr rest'
          else Inr ((attrName, Some attrSchema) # rest'))"

text \<open>
  \<open>RemoveComputedAttributesFromBlock\<close>, and its loop over \<open>block.NestedBlocks\<close>
  (\<open>nestedBlock.Block\<close> through a nil \<open>nestedBlock\<close> panics). The block is
  mutated in place; the model returns the block as it is afterwards.
\<close>

fun RemoveComputedAttributesFromBlock :: "SchemaBlock option \<Rightarrow> panic + SchemaBlock option"
and removeFromNestedBlocks ::
  "(string \<times> SchemaBlockType option) list \<Rightarrow> panic + (string \<times> SchemaBlockType option) list" where
  "RemoveComputedAttributesFromBlock None = Inr None"
| "RemoveComputedAttributesFromBlock (Some (SchemaBlock attrs nbs d)) =
     (case removeComputedOnly attrs of
        Inl p \<Rightarrow> Inl p
      | Inr attrs' \<Rightarrow>
          (case removeFromNestedBlocks nbs of
             Inl p \<Rightarrow> Inl p
           | Inr nbs' \<Rightarrow> Inr (Some (SchemaBlock attrs' nbs' d))))"
| "removeFromNestedBlocks [] = Inr []"
| "removeFromNestedBlocks ((name, None) # rest) = Inl NilPointerDereference"
| "removeFromNestedBlocks ((name, Some (SchemaBlockType m b mn mx)) # rest) =
     (case RemoveComputedAttributesFromBlock b of
        Inl p \<Rightarrow> Inl p
      | Inr b' \<Rightarrow>
          (case removeFromNestedBlocks rest of
             Inl p \<Rightarrow> Inl p
           | Inr rest' \<Rightarrow> Inr ((name, Some (SchemaBlockType m b' mn mx)) # rest')))"

text \<open>
  \<open>RemoveComputedAttributes\<close>: every resource of every provider; a resource whose
  \<open>Block\<close> is nil is left as it is (\<open>continue\<close>). The body of the loop is written
  out in the source and is the body of \<open>RemoveComputedAttributesFromBlock\<close>.
\<close>

fun removeComputedFromResource :: "Schema \<Rightarrow> panic + Schema" where
  "removeComputedFromResource resourceSchema =
     (case Schema_Block resourceSchema of
        None \<Rightarrow> Inr resourceSchema
      | Some (SchemaBlock attrs nbs d) \<Rightarrow>
          (case removeComputedOnly attrs of
             Inl p \<Rightarrow> Inl p
           | Inr attrs' \<Rightarrow>
               (case removeFromNestedBlocks nbs of
                  Inl p \<Rightarrow> Inl p
                | Inr nbs' \<Rightarrow>
                    Inr (resourceSchema\<lparr>Schema_Block := Some (SchemaBlock attrs' nbs' d)\<rparr>))))"

fun removeComputedFromResources :: "(string \<times> Schema) list \<Rightarrow> panic + (string \<times> Schema) list" where
  "removeComputedFromResources [] = Inr []"
| "removeComputedFromResources ((resourceName, resourceSchema) # rest) =
     (case removeComputedFromResource resourceSchema of
        Inl p \<Rightarrow> Inl p
      | Inr r' \<Rightarrow>
          (case removeComputedFromResources rest of
             Inl p \<Rightarrow> Inl p
           | Inr rest' \<Rightarrow> Inr ((resourceName, r') # rest')))"

fun removeComputedFromProviders ::
  "(string \<times> ProviderSchema) list \<Rightarrow> panic + (string \<times> ProviderSchema) list" where
  "removeComputedFromProviders [] = Inr []"
| "removeComputedFromProviders ((providerKey, providerSchema) # rest) =
     (case removeComputedFromResources (ResourceSchemas providerSchema) of
        Inl p \<Rightarrow> Inl p
      | Inr rs' \<Rightarrow>
          (case removeComputedFromProviders rest of
             Inl p \<Rightarrow> Inl p
           | Inr rest' \<Rightarrow> Inr ((providerKey, providerSchema\<lparr>ResourceSchemas := rs'\<rparr>) # rest')))"

definition RemoveComputedAttributes :: "ProviderSchemas \<Rightarrow> panic + ProviderSchemas" where
  "RemoveComputedAttributes providerSchemas =
     (case removeComputedFromProviders (Schemas providerSchemas) of
        Inl p \<Rightarrow> Inl p
      | Inr ss' \<Rightarrow> Inr (providerSchemas\<lparr>Schemas := ss'\<rparr>))"

text \<open>
  What the claims speak of: a computed-only attribute somewhere in a schema tree, at any
  depth of nested blocks, and a schema tree without nil attribute or block-type pointers.
\<close>

fun attrsHaveComputedOnly :: "(string \<times> SchemaAttribute option) list \<Rightarrow> bool" where
  "attrsHaveComputedOnly [] = False"
| "attrsHaveComputedOnly ((n, None) # rest) = attrsHaveComputedOnly rest"
| "attrsHaveComputedOnly ((n, Some a) # rest) = (computedOnly a \<or> attrsHaveComputedOnly rest)"

fun blockHasComputedOnly :: "SchemaBlock option \<Rightarrow> bool"
and nestedHaveComputedOnly :: "(string \<times> SchemaBlockType option) list \<Rightarrow> bool" where
  "blockHasComputedOnly None = False"
| "blockHasComputedOnly (Some (SchemaBlock attrs nbs d)) =
     (attrsHaveComputedOnly attrs \<or> nestedHaveComputedOnly nbs)"
| "nestedHaveComputedOnly [] = False"
| "nestedHaveComputedOnly ((n, None) # rest) = nestedHaveComputedOnly rest"
| "nestedHaveComputedOnly ((n, Some (SchemaBlockType m b mn mx)) # rest) =
     (blockHasComputedOnly b \<or> nestedHaveComputedOnly rest)"

definition schemasHaveComputedOnly :: "ProviderSchemas \<Rightarrow> bool" where
  "schemasHaveComputedOnly providerSchemas \<longleftrightarrow>
     list_ex (\<lambda>(providerKey, providerSchema).
        list_ex (\<lambda>(resourceName, resourceSchema). blockHasComputedOnly (Schema_Block resourceSchema))
          (ResourceSchemas providerSchema))
       (Schemas providerSchemas)"

fun blockNilFree :: "SchemaBlock option \<Rightarrow> bool"
and nestedNilFree :: "(string \<times> SchemaBlockType option) list \<Rightarrow> bool" where
  "blockNilFree None = True"
| "blockNilFree (Some (SchemaBlock attrs nbs d)) =
     (list_all (\<lambda>(n, a). a \<noteq> None) attrs \<and> nestedNilFree nbs)"
| "nestedNilFree [] = True"
| "nestedNilFree ((n, None) # rest) = False"
| "nestedNilFree ((n, Some (SchemaBlockType m b mn mx)) # rest) =
     (blockNilFree b \<and> nestedNilFree rest)"

definition schemasNilFree :: "ProviderSchemas \<Rightarrow> bool" where
  "schemasNilFree providerSchemas \<longleftrightarrow>
     list_all (\<lambda>(providerKey, providerSchema).
        list_all (\<lambda>(resourceName, resourceSchema). blockNilFree (Schema_Block resourceSchema))
          (ResourceSchemas providerSchema))
       (Schemas providerSchemas)"


text \<open>The schema of \<open>TestRemoveComputedAttributes\<close> and the schema the test expects.\<close>

definition computedAttr :: "bool \<Rightarrow> bool \<Rightarrow> bool \<Rightarrow> SchemaAttribute option" where
  "computedAttr c opt req =
     Some \<lparr>AttributeType = cty_NilType, Description = [], Required = req,
           Optional = opt, Computed = c\<rparr>"

definition testComputedSchemas :: ProviderSchemas where
  "testComputedSchemas =
     \<lparr>FormatVersion = [], Schemas =
       [(''hashicorp/aws'', \<lparr>ResourceSchemas =
          [(''aws_instance'', \<lparr>Schema_Block = Some (SchemaBlock
              [(''name'', computedAttr True False False)]
              [(''nested_block'', Some (SchemaBlockType [] (Some (SchemaBlock
                  [(''nested_attr'', computedAttr True False False),
                   (''valid_attr'', computedAttr True True False)] [] [])) 0 0))]
              [])\<rparr>),
           (''aws_vpc'', \<lparr>Schema_Block = None\<rparr>)]\<rparr>)]\<rparr>"

definition expectedComputedSchemas :: ProviderSchemas where
  "expectedComputedSchemas =
     \<lparr>FormatVersion = [], Schemas =
       [(''hashicorp/aws'', \<lparr>ResourceSchemas =
          [(''aws_instance'', \<lparr>Schema_Block = Some (SchemaBlock
              []
              [(''nested_block'', Some (SchemaBlockType [] (Some (SchemaBlock
                  [(''valid_attr'', computedAttr True True False)] [] [])) 0 0))]
              [])\<rparr>),
           (''aws_vpc'', \<lparr>Schema_Block = None\<rparr>)]\<rparr>)]\<rparr>"

section \<open>Repair: removing rejected attributes (schema.go)\<close>

definition HasPrefix :: "string \<Rightarrow> string \<Rightarrow> bool" where
  "HasPrefix s prefix \<longleftrightarrow> take (length prefix) s = prefix"

text \<open>
  The loop \<open>for validationKey, attrs := range validationErrors\<close> with its
  \<open>break\<close>: the entry visited first whose key starts with the resource key gives the
  list; \<open>invalidAttributes\<close> stays nil (empty) when no key matches.
\<close>

fun selectInvalidAttributes :: "(string \<times> string list) list \<Rightarrow> string \<Rightarrow> string list" where
  "selectInvalidAttributes [] resourceKey = []"
| "selectInvalidAttributes ((validationKey, attrs) # rest) resourceKey =
     (if HasPrefix validationKey resourceKey then attrs
      else selectInvalidAttributes rest resourceKey)"

text \<open>
  The loop over \<open>invalidAttributes\<close>: an attribute that exists is deleted from the map,
  one that does not is logged with a warning and nothing else happens.
\<close>

fun removeAttributes ::
  "(string \<times> SchemaAttribute option) list \<Rightarrow> string list \<Rightarrow> (string \<times> SchemaAttribute option) list" where
  "removeAttributes attributes [] = attributes"
| "removeAttributes attributes (attrName # rest) =
     (if map_of attributes attrName \<noteq> None
      then removeAttributes (filter (\<lambda>(name, a). name \<noteq> attrName) attributes) rest
      else removeAttributes attributes rest)"

text \<open>
  The body of the loop over \<open>providerSchema.ResourceSchemas\<close>. With invalid attributes
  selected, \<open>resourceSchema.Block.Attributes\<close> is read: a nil \<open>Block\<close> panics.
\<close>

definition removeInvalidFromResource ::
  "(string \<times> string list) list \<Rightarrow> string \<Rightarrow> Schema \<Rightarrow> panic + Schema" where
  "removeInvalidFromResource validationErrors resourceKey resourceSchema =
     (let invalidAttributes = selectInvalidAttributes validationErrors resourceKey in
      if length invalidAttributes = 0 then Inr resourceSchema
      else
        (case Schema_Block resourceSchema of
           None \<Rightarrow> Inl NilPointerDereference
         | Some (SchemaBlock attrs nbs d) \<Rightarrow>
             Inr (resourceSchema\<lparr>Schema_Block :=
                    Some (SchemaBlock (removeAttributes attrs invalidAttributes) nbs d)\<rparr>)))"

fun removeInvalidFromResources ::
  "(string \<times> string list) list \<Rightarrow> (string \<times> Schema) list \<Rightarrow> panic + (string \<times> Schema) list" where
  "removeInvalidFromResources validationErrors [] = Inr []"
| "removeInvalidFromResources validationErrors ((resourceKey, resourceSchema) # rest) =
     (case removeInvalidFromResource validationErrors resourceKey resourceSchema of
        Inl p \<Rightarrow> Inl p
      | Inr r' \<Rightarrow>
          (case removeInvalidFromResources validationErrors rest of
             Inl p \<Rightarrow> Inl p
           | Inr rest' \<Rightarrow> Inr ((resourceKey, r') # rest')))"

fun removeInvalidFromProviders ::
  "(string \<times> string list) list \<Rightarrow> (string \<times> ProviderSchema) list
     \<Rightarrow> panic + (string \<times> ProviderSchema) list" where
  "removeInvalidFromProviders validationErrors [] = Inr []"
| "removeInvalidFromProviders validationErrors ((providerKey, providerSchema) # rest) =
     (case removeInvalidFromResources validationErrors (ResourceSchemas providerSchema) of
        Inl p \<Rightarrow> Inl p
      | Inr rs' \<Rightarrow>
          (case removeInvalidFromProviders validationErrors rest of
             Inl p \<Rightarrow> Inl p
           | Inr rest' \<Rightarrow> Inr ((providerKey, providerSchema\<lparr>ResourceSchemas := rs'\<rparr>) # rest')))"

text \<open>
  \<open>RemoveInvalidAttributesFromSchema\<close> returns a fresh \<open>ProviderSchemas\<close> around the
  mutated map; its \<open>FormatVersion\<close> is the zero value.
\<close>

definition RemoveInvalidAttributesFromSchema ::
  "(string \<times> ProviderSchema) list \<Rightarrow> (string \<times> string list) list \<Rightarrow> panic + ProviderSchemas" where
  "RemoveInvalidAttributesFromSchema cleanedSchema validationErrors =
     (case removeInvalidFromProviders validationErrors cleanedSchema of
        Inl p \<Rightarrow> Inl p
      | Inr ss' \<Rightarrow> Inr \<lparr>FormatVersion = [], Schemas = ss'\<rparr>)"

text \<open>
  The top-level attributes of resource \<open>resourceKey\<close> of provider \<open>providerKey\<close>, when
  the resource is there and has a block.
\<close>

definition lookupAttributes ::
  "(string \<times> ProviderSchema) list \<Rightarrow> string \<Rightarrow> string
     \<Rightarrow> (string \<times> SchemaAttribute option) list option" where
  "lookupAttributes schemas providerKey resourceKey =
     (case map_of schemas providerKey of
        None \<Rightarrow> None
      | Some providerSchema \<Rightarrow>
          (case map_of (ResourceSchemas providerSchema) resourceKey of
             None \<Rightarrow> None
           | Some resourceSchema \<Rightarrow>
               (case Schema_Block resourceSchema of
                  None \<Rightarrow> None
                | Some block \<Rightarrow> Some (Attributes block))))"

text \<open>Every resource for which a non-empty rejection list is selected has a block.\<close>

definition rejectedHaveBlocks ::
  "(string \<times> string list) list \<Rightarrow> (string \<times> ProviderSchema) list \<Rightarrow> bool" where
  "rejectedHaveBlocks validationErrors schemas \<longleftrightarrow>
     list_all (\<lambda>(providerKey, providerSchema).
        list_all (\<lambda>(resourceKey, resourceSchema).
            selectInvalidAttributes validationErrors resourceKey = [] \<or>
            Schema_Block resourceSchema \<noteq> None)
          (ResourceSchemas providerSchema))
       schemas"

text \<open>The schema and rejection map of \<open>TestRemoveInvalidAttributesFromSchema\<close>.\<close>

definition stringAttr :: "SchemaAttribute option" where
  "stringAttr = Some \<lparr>AttributeType = cty_String, Description = [], Required = False,
                      Optional = False, Computed = False\<rparr>"

definition testInvalidSchemas :: "(string \<times> ProviderSchema) list" where
  "testInvalidSchemas =
     [(''hashicorp/aws'', \<lparr>ResourceSchemas =
        [(''aws_instance'', \<lparr>Schema_Block = Some (SchemaBlock
            [(''name'', stringAttr), (''type'', stringAttr)] [] [])\<rparr>),
         (''aws_vpc'', \<lparr>Schema_Block = Some (SchemaBlock
            [(''cidr_block'', stringAttr)] [] [])\<rparr>)]\<rparr>)]"

definition testValidationErrors :: "(string \<times> string list) list" where
  "testValidationErrors =
     [(''aws_instance'', [''type'', ''nonexistent_attr'']), (''aws_vpc'', [])]"

section \<open>Type renderer (getAttributeType)\<close>

text \<open>
  The methods of \<open>cty.Type\<close> that \<open>getAttributeType\<close> calls. \<open>ElementType\<close>
  and \<open>AttributeTypes\<close> panic on a type of another kind, \<open>MapElementType\<close>
  returns a nil pointer on a type that is not a map, and \<open>FriendlyName\<close> is modelled
  on the primitive types, where it is called.
\<close>

fun IsPrimitiveType :: "cty_Type \<Rightarrow> bool" where
  "IsPrimitiveType (cty_Primitive k) = True"
| "IsPrimitiveType t = False"

fun IsListType :: "cty_Type \<Rightarrow> bool" where
  "IsListType (cty_List e) = True"
| "IsListType t = False"

fun IsSetType :: "cty_Type \<Rightarrow> bool" where
  "IsSetType (cty_Set e) = True"
| "IsSetType t = False"

fun IsMapType :: "cty_Type \<Rightarrow> bool" where
  "IsMapType (cty_Map e) = True"
| "IsMapType t = False"

fun IsObjectType :: "cty_Type \<Rightarrow> bool" where
  "IsObjectType (cty_Object atys) = True"
| "IsObjectType t = False"

fun FriendlyName :: "primitiveTypeKind \<Rightarrow> string" where
  "FriendlyName primitiveTypeBool = ''bool''"
| "FriendlyName primitiveTypeNumber = ''number''"
| "FriendlyName primitiveTypeString = ''string''"

fun primitiveKind :: "cty_Type \<Rightarrow> primitiveTypeKind option" where
  "primitiveKind (cty_Primitive k) = Some k"
| "primitiveKind t = None"

fun ElementType :: "cty_Type \<Rightarrow> panic + cty_Type" where
  "ElementType (cty_List e) = Inr e"
| "ElementType (cty_Set e) = Inr e"
| "ElementType (cty_Map e) = Inr e"
| "ElementType t = Inl NotACollectionType"

fun MapElementType :: "cty_Type \<Rightarrow> cty_Type option" where
  "MapElementType (cty_Map e) = Some e"
| "MapElementType t = None"

fun AttributeTypes :: "cty_Type \<Rightarrow> panic + (string \<times> cty_Type) list" where
  "AttributeTypes (cty_Object atys) = Inr atys"
| "AttributeTypes t = Inl NotAnObjectType"

text \<open>
  \<open>getAttributeType\<close>, with the \<open>switch\<close> as the chain of tests it is, and the
  loop over the attribute types of an object type (\<open>writeFields\<close>, in the order of the
  visit) that writes one line per field into the builder.
\<close>

function getAttributeType :: "cty_Type \<Rightarrow> panic + string"
and writeFields :: "(string \<times> cty_Type) list \<Rightarrow> panic + string" where
  "getAttributeType attrType =
     (if IsPrimitiveType attrType then
        (case primitiveKind attrType of
           None \<Rightarrow> Inl NilPointerDereference
         | Some k \<Rightarrow> Inr (FriendlyName k))
      else if IsListType attrType then
        (case ElementType attrType of
           Inl p \<Rightarrow> Inl p
         | Inr e \<Rightarrow>
             (case getAttributeType e of
                Inl p \<Rightarrow> Inl p
              | Inr elementType \<Rightarrow> Inr (''list('' @ elementType @ '')'')))
      else if IsSetType attrType then
        (case ElementType attrType of
           Inl p \<Rightarrow> Inl p
         | Inr e \<Rightarrow>
             (case getAttributeType e of
                Inl p \<Rightarrow> Inl p
              | Inr elementType \<Rightarrow> Inr (''set('' @ elementType @ '')'')))
      else if IsMapType attrType then
        (case MapElementType attrType of
           None \<Rightarrow> Inl NilPointerDereference
         | Some e \<Rightarrow>
             (case getAttributeType e of
                Inl p \<Rightarrow> Inl p
              | Inr mapElementType \<Rightarrow> Inr (''map('' @ mapElementType @ '')'')))
      else if IsObjectType attrType then
        (case AttributeTypes attrType of
           Inl p \<Rightarrow> Inl p
         | Inr atys \<Rightarrow>
             (case writeFields atys of
                Inl p \<Rightarrow> Inl p
              | Inr written \<Rightarrow> Inr (''object({\<newline>'' @ written @ ''})'')))
      else Inr ''any'')"
| "writeFields [] = Inr []"
| "writeFields ((key, val) # rest) =
     (case getAttributeType val of
        Inl p \<Rightarrow> Inl p
      | Inr attributeType \<Rightarrow>
          (case writeFields rest of
             Inl p \<Rightarrow> Inl p
           | Inr written \<Rightarrow> Inr (''  '' @ key @ '' = '' @ attributeType @ ''\<newline>'' @ written)))"
  by pat_completeness auto
termination
proof (relation "measure (\<lambda>x. case x of
          Inl t \<Rightarrow> 2 * size t
        | Inr atys \<Rightarrow> 2 * size (cty_Object atys) - 1)", goal_cases)
  case 1
  show ?case by simp
next
  case (2 attrType e)
  then show ?case by (cases attrType) auto
next
  case (3 attrType e)
  then show ?case by (cases attrType) auto
next
  case (4 attrType e)
  then show ?case by (cases attrType) auto
next
  case (5 attrType atys)
  then show ?case by (cases attrType) auto
next
  case (6 key val rest)
  show ?case by simp
next
  case (7 key val rest attributeType)
  show ?case by simp
qed

section \<open>Diagnostic extractor (parsing.go)\<close>

text \<open>
  One entry of the \<open>diagnostics\<close> array, as the anonymous struct declares it.
\<close>

record Diagnostic =
  Severity :: string
  Address :: string
  Summary :: string
  Detail :: string
  Snippet_Context :: string
  Snippet_Code :: string

text \<open>
  The four regular expressions of the function, each as the leftmost-first match that
  Go's \<open>regexp\<close> finds. \<open>findFirst\<close> tries a pattern at every position from the left.
  \<open>\s\<close> is \<open>[\t\n\f\r ]\<close>, \<open>\w\<close> is \<open>[0-9A-Za-z_]\<close>, and \<open>.\<close> is any
  character but the newline.
\<close>

fun findFirst :: "(string \<Rightarrow> 'a option) \<Rightarrow> string \<Rightarrow> 'a option" where
  "findFirst matchAt [] = matchAt []"
| "findFirst matchAt (c # s) =
     (case matchAt (c # s) of Some r \<Rightarrow> Some r | None \<Rightarrow> findFirst matchAt s)"

definition stripPrefix :: "string \<Rightarrow> string \<Rightarrow> string option" where
  "stripPrefix literal s =
     (if HasPrefix s literal then Some (drop (length literal) s) else None)"

definition isRegexSpace :: "char \<Rightarrow> bool" where
  "isRegexSpace c \<longleftrightarrow> c \<in> set [CHR 0x09, CHR 0x0A, CHR 0x0C, CHR 0x0D, CHR 0x20]"

definition isWordChar :: "char \<Rightarrow> bool" where
  "isWordChar c \<longleftrightarrow>
     (CHR ''0'' \<le> c \<and> c \<le> CHR ''9'') \<or> (CHR ''A'' \<le> c \<and> c \<le> CHR ''Z'') \<or>
     (CHR ''a'' \<le> c \<and> c \<le> CHR ''z'') \<or> c = CHR ''_''"

text \<open>\<open>\s+\<close>: one or more white-space characters, as many as there are.\<close>

definition skipSpaces1 :: "string \<Rightarrow> string option" where
  "skipSpaces1 s =
     (if takeWhile isRegexSpace s = [] then None else Some (dropWhile isRegexSpace s))"

text \<open>\<open>"([^"]+)"\<close>: a quoted, non-empty run of characters other than the quote.\<close>

definition quoted1 :: "string \<Rightarrow> (string \<times> string) option" where
  "quoted1 s =
     (case s of
        [] \<Rightarrow> None
      | c # rest \<Rightarrow>
          if c \<noteq> CHR 0x22 then None
          else
            (let inner = takeWhile (\<lambda>x. x \<noteq> CHR 0x22) rest;
                 after = dropWhile (\<lambda>x. x \<noteq> CHR 0x22) rest
             in if inner = [] \<or> after = [] then None else Some (inner, tl after)))"

text \<open>\<open>resource\s+"([^"]+)"\s+"([^"]+)"\<close> at the head of a string: the two groups.\<close>

definition resourceAt :: "string \<Rightarrow> (string \<times> string) option" where
  "resourceAt s =
     (case stripPrefix ''resource'' s of
        None \<Rightarrow> None
      | Some s1 \<Rightarrow>
          (case skipSpaces1 s1 of
             None \<Rightarrow> None
           | Some s2 \<Rightarrow>
               (case quoted1 s2 of
                  None \<Rightarrow> None
                | Some (resourceType, s3) \<Rightarrow>
                    (case skipSpaces1 s3 of
                       None \<Rightarrow> None
                     | Some s4 \<Rightarrow>
                         (case quoted1 s4 of
                            None \<Rightarrow> None
                          | Some (resourceName, s5) \<Rightarrow> Some (resourceType, resourceName))))))"

text \<open>
  \<open>(.*?)\<close> followed by a literal: the shortest run of characters other than the
  newline after which the literal stands.
\<close>

fun lazyUntil :: "string \<Rightarrow> string \<Rightarrow> string option" where
  "lazyUntil literal [] = (if literal = [] then Some [] else None)"
| "lazyUntil literal (c # s) =
     (if HasPrefix (c # s) literal then Some []
      else if c = CHR 0x0A then None
      else map_option (\<lambda>r. c # r) (lazyUntil literal s))"

text \<open>\<open>Can't configure a value for \"(.*?)\"\<close>\<close>

definition matchCantConfigure :: "string \<Rightarrow> string option" where
  \<open>matchCantConfigure detail =
     findFirst (\<lambda>s. case stripPrefix ''Can't configure a value for "'' s of
                       None \<Rightarrow> None
                     | Some rest \<Rightarrow> lazyUntil ''"'' rest) detail\<close>

text \<open>\<open>\"(.*?)\": this field cannot be set\<close>\<close>

definition matchCannotBeSet :: "string \<Rightarrow> string option" where
  \<open>matchCannotBeSet summary =
     findFirst (\<lambda>s. case stripPrefix ''"'' s of
                       None \<Rightarrow> None
                     | Some rest \<Rightarrow> lazyUntil ''": this field cannot be set'' rest) summary\<close>

text \<open>\<open>invalid or unknown key: (\w+)\<close>\<close>

definition matchUnknownKey :: "string \<Rightarrow> string option" where
  "matchUnknownKey summary =
     findFirst (\<lambda>s. case stripPrefix ''invalid or unknown key: '' s of
                       None \<Rightarrow> None
                     | Some rest \<Rightarrow>
                         if takeWhile isWordChar rest = [] then None
                         else Some (takeWhile isWordChar rest)) summary"

text \<open>
  \<open>strings.TrimSpace\<close>: leading and trailing white space as Unicode defines it, in
  UTF-8: the six ASCII characters, U+0085, U+00A0, U+1680, U+2000 to U+200A, U+2028,
  U+2029, U+202F, U+205F and U+3000.
\<close>

definition spaceRunes :: "string list" where
  "spaceRunes =
     [[CHR 0x09], [CHR 0x0A], [CHR 0x0B], [CHR 0x0C], [CHR 0x0D], [CHR 0x20],
      [CHR 0xC2, CHR 0x85], [CHR 0xC2, CHR 0xA0], [CHR 0xE1, CHR 0x9A, CHR 0x80],
      [CHR 0xE2, CHR 0x80, CHR 0x80], [CHR 0xE2, CHR 0x80, CHR 0x81],
      [CHR 0xE2, CHR 0x80, CHR 0x82], [CHR 0xE2, CHR 0x80, CHR 0x83],
      [CHR 0xE2, CHR 0x80, CHR 0x84], [CHR 0xE2, CHR 0x80, CHR 0x85],
      [CHR 0xE2, CHR 0x80, CHR 0x86], [CHR 0xE2, CHR 0x80, CHR 0x87],
      [CHR 0xE2, CHR 0x80, CHR 0x88], [CHR 0xE2, CHR 0x80, CHR 0x89],
      [CHR 0xE2, CHR 0x80, CHR 0x8A], [CHR 0xE2, CHR 0x80, CHR 0xA8],
      [CHR 0xE2, CHR 0x80, CHR 0xA9], [CHR 0xE2, CHR 0x80, CHR 0xAF],
      [CHR 0xE2, CHR 0x81, CHR 0x9F], [CHR 0xE3, CHR 0x80, CHR 0x80]]"

function trimLeft :: "string list \<Rightarrow> string \<Rightarrow> string" where
  "trimLeft runes s =
     (case find (\<lambda>r. HasPrefix s r) runes of
        None \<Rightarrow> s
      | Some r \<Rightarrow> if length r = 0 then s else trimLeft runes (drop (length r) s))"
  by pat_completeness auto
termination
proof (relation "measure (\<lambda>(runes, s). length s)", goal_cases)
  case 1
  show ?case by simp
next
  case (2 runes s r)
  from 2(1) have "HasPrefix s r" by (auto simp: find_Some_iff)
  with 2(2) show ?case by (cases s) (auto simp: HasPrefix_def)
qed

definition TrimSpace :: "string \<Rightarrow> string" where
  "TrimSpace s = rev (trimLeft (map rev spaceRunes) (rev (trimLeft spaceRunes s)))"

text \<open>
  The address of a diagnostic: the \<open>address\<close> field, else the one read out of the
  snippet's context, else none (\<open>continue\<close>).
\<close>

definition resolveAddress :: "Diagnostic \<Rightarrow> string option" where
  "resolveAddress diagnostic =
     (let address = Address diagnostic in
      if address = [] \<and> Snippet_Context diagnostic \<noteq> [] then
        (case findFirst resourceAt (Snippet_Context diagnostic) of
           Some (resourceType, resourceName) \<Rightarrow> Some (resourceType @ ''.'' @ resourceName)
         | None \<Rightarrow> None)
      else if address = [] then None
      else Some address)"

text \<open>The fall-back from the code snippet: what stands before the first \<open>=\<close>.\<close>

definition attributeFromCode :: "string \<Rightarrow> string option" where
  "attributeFromCode snippetCode =
     (let code = TrimSpace snippetCode in
      if code \<noteq> [] then
        if CHR ''='' \<in> set code then
          (let attribute = TrimSpace (takeWhile (\<lambda>c. c \<noteq> CHR ''='') code) in
           if attribute \<noteq> [] then Some attribute else None)
        else None
      else None)"

text \<open>
  The attribute a diagnostic names, by the chain of attempts of the loop body; each
  successful attempt ends the iteration (\<open>continue\<close>).
\<close>

definition extractAttribute :: "Diagnostic \<Rightarrow> string option" where
  "extractAttribute diagnostic =
     (let detail = Detail diagnostic;
          fromDetail = (if detail \<noteq> [] then matchCantConfigure detail else None)
      in case fromDetail of
           Some attribute \<Rightarrow> Some attribute
         | None \<Rightarrow>
             (let summary = Summary diagnostic;
                  fromSummary =
                    (if summary \<noteq> [] then
                       (case matchCannotBeSet summary of
                          Some attribute \<Rightarrow> Some attribute
                        | None \<Rightarrow> matchUnknownKey summary)
                     else None)
              in case fromSummary of
                   Some attribute \<Rightarrow> Some attribute
                 | None \<Rightarrow> attributeFromCode (Snippet_Code diagnostic)))"

text \<open>\<open>invalidKeys[address] = append(invalidKeys[address], attribute)\<close>\<close>

definition appendKey ::
  "(string \<rightharpoonup> string list) \<Rightarrow> string \<Rightarrow> string \<Rightarrow> (string \<rightharpoonup> string list)" where
  "appendKey invalidKeys address attribute =
     invalidKeys(address \<mapsto> (case invalidKeys address of None \<Rightarrow> [] | Some attrs \<Rightarrow> attrs) @ [attribute])"

definition processDiagnostic ::
  "(string \<rightharpoonup> string list) \<Rightarrow> Diagnostic \<Rightarrow> (string \<rightharpoonup> string list)" where
  "processDiagnostic invalidKeys diagnostic =
     (if Severity diagnostic = ''error'' then
        (case resolveAddress diagnostic of
           None \<Rightarrow> invalidKeys
         | Some address \<Rightarrow>
             (case extractAttribute diagnostic of
                None \<Rightarrow> invalidKeys
              | Some attribute \<Rightarrow> appendKey invalidKeys address attribute))
      else invalidKeys)"

text \<open>
  \<open>ParseValidationErrorsFromJSON\<close>. \<open>json.Unmarshal\<close> into the declared struct is
  the parameter \<open>unmarshal\<close>: the diagnostics it decodes, or its error. The result is the
  pair the Go function returns, a nil map or a nil error being \<open>None\<close>.
\<close>

definition ParseValidationErrorsFromJSON ::
  "(string \<Rightarrow> string + Diagnostic list) \<Rightarrow> string
     \<Rightarrow> (string \<rightharpoonup> string list) option \<times> string option" where
  "ParseValidationErrorsFromJSON unmarshal jsonOutput =
     (case unmarshal jsonOutput of
        Inl err \<Rightarrow>
          (None, Some (''failed to parse JSON output from terraform validate: '' @ err))
      | Inr diagnostics \<Rightarrow> (Some (foldl processDiagnostic Map.empty diagnostics), None))"

text \<open>The second and the first diagnostic of \<open>TestParseValidationErrorsFromJSON\<close>.\<close>

definition userDataDiagnostic :: Diagnostic where
  \<open>userDataDiagnostic =
     \<lparr>Severity = ''error'', Address = [], Summary = [],
      Detail = ''Can't configure a value for "user_data"'',
      Snippet_Context = ''resource "aws_instance" "example"'',
      Snippet_Code = ''user_data = <<EOF\<newline># User data script\<newline>EOF''\<rparr>\<close>

definition keyNameDiagnostic :: Diagnostic where
  \<open>keyNameDiagnostic =
     \<lparr>Severity = ''error'', Address = ''aws_instance.example'',
      Summary = ''"key_name": this field cannot be set'', Detail = [],
      Snippet_Context = [], Snippet_Code = []\<rparr>\<close>

section \<open>Cosmetic cleanup (cleanupHCLFile)\<close>

text \<open>
  A text is its lines, each ended by a newline, and what stands after the last newline;
  \<open>strings.Split(content, "\n")\<close> gives the lines and then that last piece.
\<close>

fun splitLines :: "string \<Rightarrow> string list \<times> string" where
  "splitLines [] = ([], [])"
| "splitLines (c # s) =
     (case splitLines s of
        (ls, final) \<Rightarrow>
          if c = CHR 0x0A then ([] # ls, final)
          else (case ls of [] \<Rightarrow> ([], c # final) | l # ls' \<Rightarrow> ((c # l) # ls', final)))"

definition joinLines :: "string list \<times> string \<Rightarrow> string" where
  "joinLines p = concat (map (\<lambda>l. l @ [CHR 0x0A]) (fst p)) @ snd p"

definition Split_newline :: "string \<Rightarrow> string list" where
  "Split_newline s = fst (splitLines s) @ [snd (splitLines s)]"

text \<open>
  A line that \<open>^\s*$\<close> matches: white space only. \<open>\s*}\<close> at the start of a line:
  its first character that is not white space is the closing brace.
\<close>

definition isBlank :: "string \<Rightarrow> bool" where
  "isBlank l \<longleftrightarrow> list_all isRegexSpace l"

definition startsWithBrace :: "string \<Rightarrow> bool" where
  "startsWithBrace l \<longleftrightarrow>
     (case dropWhile isRegexSpace l of [] \<Rightarrow> False | c # rest \<Rightarrow> c = CHR ''}'')"

text \<open>
  \<open>(?m)(^\s*$\n){2,}\<close> replaced by \<open>"\n"\<close>: the leftmost match starts at the first
  line of a run of blank lines and, the repetition and \<open>\s*\<close> being greedy, ends with
  the run; a run of two or more lines becomes one empty line. The piece after the last
  newline is never part of a match, every repetition ending in a newline.
\<close>

function collapseRuns :: "string list \<Rightarrow> string list" where
  "collapseRuns [] = []"
| "collapseRuns (l # ls) =
     (if isBlank l then
        (if takeWhile isBlank ls = [] then l # collapseRuns ls
         else [] # collapseRuns (dropWhile isBlank ls))
      else l # collapseRuns ls)"
  by pat_completeness auto
termination
  by (relation "measure length") (auto simp: length_dropWhile_le less_Suc_eq_le)

text \<open>
  \<open>(?m)(^\s*$\n){1,}(\s*})\<close> replaced by \<open>"$2"\<close>: a run of blank lines is removed
  when the first character after it that is not white space is a closing brace, that is
  when the line after the run (or the piece after the last newline) starts with
  \<open>\s*}\<close>; that line is the second group and stays.
\<close>

function removeBeforeBrace :: "string list \<Rightarrow> string \<Rightarrow> string list" where
  "removeBeforeBrace [] final = []"
| "removeBeforeBrace (l # ls) final =
     (if isBlank l then
        (let rest = dropWhile isBlank ls;
             following = (case rest of [] \<Rightarrow> final | x # xs \<Rightarrow> x)
         in if startsWithBrace following then removeBeforeBrace rest final
            else (l # takeWhile isBlank ls) @ removeBeforeBrace rest final)
      else l # removeBeforeBrace ls final)"
  by pat_completeness auto
termination
  by (relation "measure (\<lambda>(ls, final). length ls)")
     (auto simp: length_dropWhile_le less_Suc_eq_le)

definition collapseBlankLines :: "string \<Rightarrow> string" where
  "collapseBlankLines content =
     joinLines (collapseRuns (fst (splitLines content)), snd (splitLines content))"

definition removeBlankBeforeBrace :: "string \<Rightarrow> string" where
  "removeBlankBeforeBrace content =
     joinLines (removeBeforeBrace (fst (splitLines content)) (snd (splitLines content)),
                snd (splitLines content))"

text \<open>The two substitutions of \<open>cleanupHCLFile\<close>, on the text of the body.\<close>

definition cleanupContent :: "string \<Rightarrow> string" where
  "cleanupContent content = removeBlankBeforeBrace (collapseBlankLines content)"

text \<open>
  \<open>cleanupHCLFile\<close>, from the text of the file's body (the bytes of its tokens) to the
  text of the body it leaves: the body is cleared, and every piece of
  \<open>strings.Split(content, "\n")\<close> is appended as one token followed by a newline.
\<close>

definition cleanupHCLFile :: "string \<Rightarrow> string" where
  "cleanupHCLFile body =
     concat (map (\<lambda>line. line @ [CHR 0x0A]) (Split_newline (cleanupContent body)))"

section \<open>Dual code generator (CreateMainTF, CreateVariablesTF)\<close>

text \<open>
  What the program builds with hclwrite: a body is the sequence of its items, in the
  order in which they were appended. The model gives the body of the file as the
  generator leaves it, before \<open>cleanupHCLFile\<close> and the write to disk.
\<close>

datatype token_type = TokenIdent | TokenNewline | TokenComment

datatype token = Token token_type string

datatype expression = TokensForIdentifier string | StringVal string

datatype node =
    Attribute string expression
  | BlockNode string "string list" "node list"
  | Newline
  | UnstructuredTokens "token list"

text \<open>
  \<open>SetAttributeRaw\<close>: the expression of the attribute of that name is replaced where
  the body has one, else a new attribute is appended.
\<close>

fun hasAttribute :: "node list \<Rightarrow> string \<Rightarrow> bool" where
  "hasAttribute [] name = False"
| "hasAttribute (Attribute n e # rest) name = (n = name \<or> hasAttribute rest name)"
| "hasAttribute (x # rest) name = hasAttribute rest name"

fun replaceAttribute :: "node list \<Rightarrow> string \<Rightarrow> expression \<Rightarrow> node list" where
  "replaceAttribute [] name expr = []"
| "replaceAttribute (Attribute n e # rest) name expr =
     (if n = name then Attribute n expr # rest
      else Attribute n e # replaceAttribute rest name expr)"
| "replaceAttribute (x # rest) name expr = x # replaceAttribute rest name expr"

definition SetAttributeRaw :: "node list \<Rightarrow> string \<Rightarrow> string \<Rightarrow> node list" where
  "SetAttributeRaw body name tokens =
     (if hasAttribute body name then replaceAttribute body name (TokensForIdentifier tokens)
      else body @ [Attribute name (TokensForIdentifier tokens)])"

definition SetAttributeValue :: "node list \<Rightarrow> string \<Rightarrow> string \<Rightarrow> node list" where
  "SetAttributeValue body name val =
     (if hasAttribute body name then replaceAttribute body name (StringVal val)
      else body @ [Attribute name (StringVal val)])"

text \<open>The resources and providers that the parsing package hands over.\<close>

record Provider =
  Namespace :: string
  ProviderName :: string
  Version :: string
  NamespaceLower :: string
  NameLower :: string

record Resource =
  Name :: string
  Mode :: string
  Provider :: Provider

text \<open>
  \<open>deriveVariableName\<close>: the part after the first underscore, pluralized. The
  pluralizer of go-pluralize is the parameter \<open>Plural\<close>.
\<close>

definition deriveVariableName :: "(string \<Rightarrow> string) \<Rightarrow> string \<Rightarrow> string" where
  "deriveVariableName Plural resource =
     (if CHR ''_'' \<in> set resource
      then Plural (tl (dropWhile (\<lambda>c. c \<noteq> CHR ''_'') resource))
      else resource)"

definition forEachGuard :: "string \<Rightarrow> string" where
  "forEachGuard ref = ''can(coalesce('' @ ref @ '')) ? flatten(['' @ ref @ '']) : []''"

text \<open>
  A nested block inside an alist of nested blocks is smaller than the alist: the
  recursion of the two handlers goes through a lookup by name.
\<close>

definition blocksSize :: "(string \<times> SchemaBlockType option) list \<Rightarrow> nat" where
  "blocksSize nestedBlocks = size_list (size_prod (\<lambda>x. 0) (size_option size)) nestedBlocks"

lemma blocksSize_lookup:
  "map_of nestedBlocks name = Some (Some blockSchema) \<Longrightarrow>
   Block blockSchema = Some inner \<Longrightarrow>
   blocksSize (NestedBlocks inner) < blocksSize nestedBlocks"
proof (induction nestedBlocks)
  case Nil
  then show ?case by simp
next
  case (Cons a nestedBlocks)
  obtain k v where a: "a = (k, v)" by (cases a)
  show ?case
  proof (cases "k = name")
    case True
    with Cons.prems a have v: "v = Some blockSchema" by simp
    obtain m b mn mx where bs: "blockSchema = SchemaBlockType m b mn mx" by (cases blockSchema)
    obtain at nb d where inn: "inner = SchemaBlock at nb d" by (cases inner)
    from Cons.prems(2) bs inn have "b = Some (SchemaBlock at nb d)" by simp
    with a v bs inn show ?thesis by (simp add: blocksSize_def)
  next
    case False
    with Cons a show ?thesis by (auto simp: blocksSize_def)
  qed
qed

text \<open>
  What both skeleton loops append for a nested block: a newline, the dynamic block with
  its guarded \<open>for_each\<close> over the reference and its content, and a newline.
\<close>

definition dynamicBlock :: "string \<Rightarrow> string \<Rightarrow> node list \<Rightarrow> node list" where
  "dynamicBlock blockName ref contentBody =
     [Newline,
      BlockNode ''dynamic'' [blockName]
        [Attribute ''for_each'' (TokensForIdentifier (forEachGuard ref)),
         BlockNode ''content'' [] contentBody],
      Newline]"

text \<open>
  \<open>handleAttributesAndNestedBlocks\<close>. The attributes and the nested blocks are put
  into one map (a nested block replaces an attribute of the same name), the names
  are sorted, and \<open>handleItems\<close> is the loop over the sorted names. An entry that is a
  (possibly nil) attribute pointer sets the attribute; an entry that is a non-nil
  block pointer appends a newline, the dynamic block and a newline, the content of the
  block being built by the recursive call (through \<open>blockSchema.Block\<close>, which panics
  when nil); a nil block pointer does nothing.
\<close>

function handleAttributesAndNestedBlocks ::
  "node list \<Rightarrow> (string \<times> SchemaAttribute option) list
     \<Rightarrow> (string \<times> SchemaBlockType option) list \<Rightarrow> string \<Rightarrow> panic + node list"
and handleItems ::
  "node list \<Rightarrow> (string \<times> SchemaAttribute option) list
     \<Rightarrow> (string \<times> SchemaBlockType option) list \<Rightarrow> string \<Rightarrow> string list
     \<Rightarrow> panic + node list" where
  "handleAttributesAndNestedBlocks resourceAttrs attributes nestedBlocks prefix =
     handleItems resourceAttrs attributes nestedBlocks prefix
       (sort (remdups (map fst attributes @ map fst nestedBlocks)))"
| "handleItems resourceAttrs attributes nestedBlocks prefix [] = Inr resourceAttrs"
| "handleItems resourceAttrs attributes nestedBlocks prefix (itemName # rest) =
     (case map_of nestedBlocks itemName of
        None \<Rightarrow>
          (case map_of attributes itemName of
             None \<Rightarrow> handleItems resourceAttrs attributes nestedBlocks prefix rest
           | Some attrSchema \<Rightarrow>
               handleItems (SetAttributeRaw resourceAttrs itemName (prefix @ ''.'' @ itemName))
                 attributes nestedBlocks prefix rest)
      | Some None \<Rightarrow> handleItems resourceAttrs attributes nestedBlocks prefix rest
      | Some (Some blockSchema) \<Rightarrow>
          (case Block blockSchema of
             None \<Rightarrow> Inl NilPointerDereference
           | Some inner \<Rightarrow>
               (case handleAttributesAndNestedBlocks [] (Attributes inner) (NestedBlocks inner)
                       (itemName @ ''.value'') of
                  Inl p \<Rightarrow> Inl p
                | Inr contentBody \<Rightarrow>
                    handleItems
                      (resourceAttrs @
                         dynamicBlock itemName (prefix @ ''.'' @ itemName) contentBody)
                      attributes nestedBlocks prefix rest)))"
  by pat_completeness auto
termination
proof (relation "inv_image (less_than <*lex*> less_than)
    (\<lambda>x. case x of
       Inl (resourceAttrs, attributes, nestedBlocks, prefix) \<Rightarrow>
         (blocksSize nestedBlocks, Suc (length attributes + length nestedBlocks))
     | Inr (resourceAttrs, attributes, nestedBlocks, prefix, names) \<Rightarrow>
         (blocksSize nestedBlocks, length names))", goal_cases)
  case 1
  show ?case by (intro wf_inv_image wf_lex_prod wf_less_than)
next
  case (2 resourceAttrs attributes nestedBlocks prefix)
  have "length (remdups (map fst attributes @ map fst nestedBlocks))
          \<le> length (map fst attributes @ map fst nestedBlocks)"
    by (rule length_remdups_leq)
  then show ?case by simp
next
  case (3 resourceAttrs attributes nestedBlocks prefix itemName rest)
  show ?case by simp
next
  case (4 resourceAttrs attributes nestedBlocks prefix itemName rest attrSchema)
  show ?case by simp
next
  case (5 resourceAttrs attributes nestedBlocks prefix itemName rest)
  show ?case by simp
next
  case (6 resourceAttrs attributes nestedBlocks prefix itemName rest x2 blockSchema inner)
  then show ?case using blocksSize_lookup by simp
next
  case (7 resourceAttrs attributes nestedBlocks prefix itemName rest x2 blockSchema inner contentBody)
  show ?case by simp
qed

text \<open>
  The loop of \<open>CreateMainTF\<close> over the sorted names of a resource's block. A name
  that is a key of the attributes sets \<open>var.<name>\<close> in single mode and goes through
  \<open>handleAttributesAndNestedBlocks\<close> with the prefix \<open>each.value\<close> otherwise; any
  other name is looked up in the nested blocks, and an invalid block (a nil pointer or a
  nil inner block) is skipped with a warning.
\<close>

fun mainItems ::
  "string \<Rightarrow> node list \<Rightarrow> SchemaBlock \<Rightarrow> string list \<Rightarrow> panic + node list" where
  "mainItems mode resourceAttrs block [] = Inr resourceAttrs"
| "mainItems mode resourceAttrs block (itemName # rest) =
     (case map_of (Attributes block) itemName of
        Some attrSchema \<Rightarrow>
          if mode = ''single'' then
            mainItems mode (SetAttributeRaw resourceAttrs itemName (''var.'' @ itemName)) block rest
          else
            (case handleAttributesAndNestedBlocks resourceAttrs [(itemName, attrSchema)] []
                    ''each.value'' of
               Inl p \<Rightarrow> Inl p
             | Inr resourceAttrs' \<Rightarrow> mainItems mode resourceAttrs' block rest)
      | None \<Rightarrow>
          (case map_of (NestedBlocks block) itemName of
             None \<Rightarrow> mainItems mode resourceAttrs block rest
           | Some None \<Rightarrow> mainItems mode resourceAttrs block rest
           | Some (Some blockSchema) \<Rightarrow>
               (case Block blockSchema of
                  None \<Rightarrow> mainItems mode resourceAttrs block rest
                | Some inner \<Rightarrow>
                    (case handleAttributesAndNestedBlocks [] (Attributes inner)
                            (NestedBlocks inner) (itemName @ ''.value'') of
                       Inl p \<Rightarrow> Inl p
                     | Inr contentBody \<Rightarrow>
                         mainItems mode
                           (resourceAttrs @
                              dynamicBlock itemName
                                ((if mode = ''multiple'' then ''each.value.'' else ''var.'') @
                                   itemName)
                                contentBody)
                           block rest))))"

definition providerKeyOf :: "Resource \<Rightarrow> string" where
  "providerKeyOf resource =
     ''registry.terraform.io/'' @ NamespaceLower (Provider resource) @ ''/'' @
       NameLower (Provider resource)"

text \<open>
  The body of the loop of \<open>CreateMainTF\<close> over the resources: \<open>file\<close> is the body of
  the file so far. \<open>resourceSchema.Block.Attributes\<close> panics on a nil \<open>Block\<close>.
\<close>

definition mainResource ::
  "(string \<Rightarrow> string) \<Rightarrow> (string \<times> ProviderSchema) list \<Rightarrow> node list \<Rightarrow> Resource
     \<Rightarrow> panic + node list" where
  "mainResource Plural cleanedSchema file resource =
     (case map_of cleanedSchema (providerKeyOf resource) of
        None \<Rightarrow> Inr file
      | Some providerSchema \<Rightarrow>
          (case map_of (ResourceSchemas providerSchema) (Name resource) of
             None \<Rightarrow> Inr file
           | Some resourceSchema \<Rightarrow>
               (let variableName = deriveVariableName Plural (Name resource);
                    resourceAttrs =
                      (if Mode resource = ''multiple'' then
                         SetAttributeRaw [] ''for_each''
                           (''{ for i in coalesce(var.'' @ variableName @ '', []) : i.name => i }'')
                       else [])
                in case Schema_Block resourceSchema of
                     None \<Rightarrow> Inl NilPointerDereference
                   | Some block \<Rightarrow>
                       (case mainItems (Mode resource) resourceAttrs block
                               (sort (map fst (Attributes block) @ map fst (NestedBlocks block))) of
                          Inl p \<Rightarrow> Inl p
                        | Inr body \<Rightarrow>
                            Inr (file @
                                 [BlockNode ''resource'' [Name resource, ''this''] body,
                                  Newline])))))"

fun mainResources ::
  "(string \<Rightarrow> string) \<Rightarrow> (string \<times> ProviderSchema) list \<Rightarrow> node list \<Rightarrow> Resource list
     \<Rightarrow> panic + node list" where
  "mainResources Plural cleanedSchema file [] = Inr file"
| "mainResources Plural cleanedSchema file (resource # rest) =
     (case mainResource Plural cleanedSchema file resource of
        Inl p \<Rightarrow> Inl p
      | Inr file' \<Rightarrow> mainResources Plural cleanedSchema file' rest)"

text \<open>
  \<open>CreateMainTF\<close>: nothing is generated for an empty list of resources; otherwise the
  result is the body of main.tf.
\<close>

definition CreateMainTF ::
  "(string \<Rightarrow> string) \<Rightarrow> (string \<times> ProviderSchema) list \<Rightarrow> Resource list
     \<Rightarrow> panic + node list option" where
  "CreateMainTF Plural cleanedSchema resources =
     (if length resources = 0 then Inr None
      else (case mainResources Plural cleanedSchema [] resources of
              Inl p \<Rightarrow> Inl p
            | Inr file \<Rightarrow> Inr (Some file)))"

text \<open>Pieces of the declaration lines.\<close>

definition newlineToken :: token where
  "newlineToken = Token TokenNewline [CHR 0x0A]"

definition indentOf :: "nat \<Rightarrow> string" where
  "indentOf indentLevel = concat (replicate indentLevel ''  '')"

definition escapeQuotes :: "string \<Rightarrow> string" where
  "escapeQuotes s = concat (map (\<lambda>c. if c = CHR 0x22 then [CHR 0x5C, CHR 0x22] else [c]) s)"

definition newlinesToSpaces :: "string \<Rightarrow> string" where
  "newlinesToSpaces s = map (\<lambda>c. if c = CHR 0x0A then CHR '' '' else c) s"

definition knownNestingMode :: "string \<Rightarrow> bool" where
  "knownNestingMode m \<longleftrightarrow> m = ''single'' \<or> m = ''list'' \<or> m = ''set''"

definition blockTypeStrOf :: "string \<Rightarrow> string" where
  "blockTypeStrOf m =
     (if m = ''single'' then ''object({''
      else if m = ''list'' then ''list(object({''
      else ''set(object({'')"

text \<open>
  The tokens that \<open>handleAttributesAndNestedBlocksForVariable\<close> appends for an
  attribute (the description as a comment when there is one and the flag is set, then
  the line of the attribute), and before and after the fields of a nested block (a
  newline, the opening line and the block's description as a comment; the closing line
  and a newline).
\<close>

definition attributeLines ::
  "nat \<Rightarrow> bool \<Rightarrow> bool \<Rightarrow> string \<Rightarrow> SchemaAttribute \<Rightarrow> string \<Rightarrow> node list" where
  "attributeLines indentLevel isNested descAsCommentsFlag attrName attrSchema attrTypeStr =
     (if Description attrSchema \<noteq> [] \<and> descAsCommentsFlag then
        [UnstructuredTokens
           [Token TokenComment
              (indentOf indentLevel @ ''// '' @
                 newlinesToSpaces (escapeQuotes (Description attrSchema))),
            newlineToken]]
      else []) @
     [UnstructuredTokens
        [Token TokenIdent
           (indentOf indentLevel @ attrName @ '' = '' @
              (if \<not> Required attrSchema \<and> isNested then ''optional('' else []) @
              attrTypeStr @
              (if \<not> Required attrSchema \<and> isNested then '')'' else [])),
         newlineToken]]"

definition blockOpenLines ::
  "nat \<Rightarrow> bool \<Rightarrow> string \<Rightarrow> SchemaBlockType \<Rightarrow> SchemaBlock \<Rightarrow> node list" where
  "blockOpenLines indentLevel descAsCommentsFlag blockName blockSchema inner =
     [Newline,
      UnstructuredTokens
        [Token TokenIdent
           (indentOf indentLevel @ blockName @
              (if MinItems blockSchema = 0 then '' = optional('' else '' = '') @
              blockTypeStrOf (NestingMode blockSchema)),
         newlineToken]] @
     (if BlockDescription inner \<noteq> [] \<and> descAsCommentsFlag then
        [UnstructuredTokens
           [Token TokenComment
              (indentOf indentLevel @ ''  // '' @
                 newlinesToSpaces (escapeQuotes (BlockDescription inner))),
            newlineToken]]
      else [])"

definition blockCloseLines :: "nat \<Rightarrow> SchemaBlockType \<Rightarrow> node list" where
  "blockCloseLines indentLevel blockSchema =
     [UnstructuredTokens
        [Token TokenIdent
           (indentOf indentLevel @
              (if NestingMode blockSchema = ''single'' then ''})'' else ''}))'') @
              (if MinItems blockSchema = 0 then '')'' else [])),
         newlineToken],
      Newline]"

text \<open>
  \<open>handleAttributesAndNestedBlocksForVariable\<close>. The items are the attribute names
  (marked as attributes) followed by the block names, sorted by name;
  \<open>sort.Slice\<close> is not stable, and the model's stable sort is the order it gives
  when no attribute shares its name with a block. \<open>handleVariableItems\<close> is the loop
  over the sorted items. A nil attribute or block pointer panics where its field is
  read; a block of a nesting mode other than single, list and set is skipped with a
  warning, after the newline.
\<close>

function handleAttributesAndNestedBlocksForVariable ::
  "node list \<Rightarrow> (string \<times> SchemaAttribute option) list
     \<Rightarrow> (string \<times> SchemaBlockType option) list \<Rightarrow> nat \<Rightarrow> bool \<Rightarrow> bool
     \<Rightarrow> panic + node list"
and handleVariableItems ::
  "node list \<Rightarrow> (string \<times> SchemaAttribute option) list
     \<Rightarrow> (string \<times> SchemaBlockType option) list \<Rightarrow> nat \<Rightarrow> bool \<Rightarrow> bool
     \<Rightarrow> (string \<times> bool) list \<Rightarrow> panic + node list" where
  "handleAttributesAndNestedBlocksForVariable variableBody attributes nestedBlocks indentLevel
       isNested descAsCommentsFlag =
     handleVariableItems variableBody attributes nestedBlocks indentLevel isNested
       descAsCommentsFlag
       (sort_key fst (map (\<lambda>(name, a). (name, True)) attributes @
                      map (\<lambda>(name, b). (name, False)) nestedBlocks))"
| "handleVariableItems variableBody attributes nestedBlocks indentLevel isNested
       descAsCommentsFlag [] = Inr variableBody"
| "handleVariableItems variableBody attributes nestedBlocks indentLevel isNested
       descAsCommentsFlag ((itemName, isAttr) # rest) =
     (if isAttr then
        (case map_of attributes itemName of
           None \<Rightarrow> Inl NilPointerDereference
         | Some None \<Rightarrow> Inl NilPointerDereference
         | Some (Some attrSchema) \<Rightarrow>
             (case getAttributeType (AttributeType attrSchema) of
                Inl p \<Rightarrow> Inl p
              | Inr attrTypeStr \<Rightarrow>
                  handleVariableItems
                    (variableBody @
                       attributeLines indentLevel isNested descAsCommentsFlag itemName
                         attrSchema attrTypeStr)
                    attributes nestedBlocks indentLevel isNested descAsCommentsFlag rest))
      else
        (case map_of nestedBlocks itemName of
           None \<Rightarrow> Inl NilPointerDereference
         | Some None \<Rightarrow> Inl NilPointerDereference
         | Some (Some blockSchema) \<Rightarrow>
             if \<not> knownNestingMode (NestingMode blockSchema) then
               handleVariableItems (variableBody @ [Newline]) attributes nestedBlocks indentLevel
                 isNested descAsCommentsFlag rest
             else
               (case Block blockSchema of
                  None \<Rightarrow> Inl NilPointerDereference
                | Some inner \<Rightarrow>
                    (case handleAttributesAndNestedBlocksForVariable
                            (variableBody @
                               blockOpenLines indentLevel descAsCommentsFlag itemName
                                 blockSchema inner)
                            (Attributes inner) (NestedBlocks inner) (indentLevel + 1) True
                            descAsCommentsFlag of
                       Inl p \<Rightarrow> Inl p
                     | Inr variableBody' \<Rightarrow>
                         handleVariableItems
                           (variableBody' @ blockCloseLines indentLevel blockSchema)
                           attributes nestedBlocks indentLevel isNested descAsCommentsFlag rest))))"
  by pat_completeness auto
termination
proof (relation "inv_image (less_than <*lex*> less_than)
    (\<lambda>x. case x of
       Inl (variableBody, attributes, nestedBlocks, indentLevel, isNested, flag) \<Rightarrow>
         (blocksSize nestedBlocks, Suc (length attributes + length nestedBlocks))
     | Inr (variableBody, attributes, nestedBlocks, indentLevel, isNested, flag, items) \<Rightarrow>
         (blocksSize nestedBlocks, length items))", goal_cases)
  case 1
  show ?case by (intro wf_inv_image wf_lex_prod wf_less_than)
qed (auto dest: blocksSize_lookup)

text \<open>
  The loop of \<open>CreateVariablesTF\<close> over the sorted names of a single-mode resource:
  one \<open>variable\<close> block per attribute and per valid nested block.
\<close>

fun variableItems ::
  "node list \<Rightarrow> SchemaBlock \<Rightarrow> bool \<Rightarrow> string list \<Rightarrow> panic + node list" where
  "variableItems rootBody block descAsCommentsFlag [] = Inr rootBody"
| "variableItems rootBody block descAsCommentsFlag (itemName # rest) =
     (case map_of (Attributes block) itemName of
        Some None \<Rightarrow> variableItems rootBody block descAsCommentsFlag rest
      | Some (Some attrSchema) \<Rightarrow>
          (case getAttributeType (AttributeType attrSchema) of
             Inl p \<Rightarrow> Inl p
           | Inr attrTypeStr \<Rightarrow>
               (let description = newlinesToSpaces (Description attrSchema);
                    described =
                      (if description \<noteq> [] then SetAttributeValue [] ''description'' description
                       else []);
                    typed = SetAttributeRaw described ''type'' attrTypeStr;
                    variableBody =
                      (if Optional attrSchema then SetAttributeRaw typed ''default'' ''null''
                       else typed)
                in variableItems (rootBody @ [BlockNode ''variable'' [itemName] variableBody, Newline])
                     block descAsCommentsFlag rest))
      | None \<Rightarrow>
          (case map_of (NestedBlocks block) itemName of
             None \<Rightarrow> variableItems rootBody block descAsCommentsFlag rest
           | Some None \<Rightarrow> variableItems rootBody block descAsCommentsFlag rest
           | Some (Some blockSchema) \<Rightarrow>
               (case Block blockSchema of
                  None \<Rightarrow> variableItems rootBody block descAsCommentsFlag rest
                | Some inner \<Rightarrow>
                    (case handleAttributesAndNestedBlocksForVariable
                            (SetAttributeRaw [] ''type''
                               (if MaxItems blockSchema \<noteq> 1 then ''list(object({''
                                else ''object({''))
                            (Attributes inner) (NestedBlocks inner) 1 True descAsCommentsFlag of
                       Inl p \<Rightarrow> Inl p
                     | Inr filled \<Rightarrow>
                         (let closed = filled @
                                [UnstructuredTokens
                                   [Token TokenIdent
                                      (if MaxItems blockSchema \<noteq> 1 then ''}))'' else ''})''),
                                    newlineToken]];
                              variableBody =
                                (if MinItems blockSchema = 0
                                 then SetAttributeRaw closed ''default'' ''null'' else closed)
                          in variableItems
                               (rootBody @ [BlockNode ''variable'' [itemName] variableBody, Newline])
                               block descAsCommentsFlag rest)))))"

text \<open>The body of the loop of \<open>CreateVariablesTF\<close> over the resources.\<close>

definition variablesResource ::
  "(string \<Rightarrow> string) \<Rightarrow> (string \<times> ProviderSchema) list \<Rightarrow> bool \<Rightarrow> node list \<Rightarrow> Resource
     \<Rightarrow> panic + node list" where
  "variablesResource Plural cleanedSchema descAsCommentsFlag rootBody resource =
     (case map_of cleanedSchema (providerKeyOf resource) of
        None \<Rightarrow> Inr rootBody
      | Some providerSchema \<Rightarrow>
          (case map_of (ResourceSchemas providerSchema) (Name resource) of
             None \<Rightarrow> Inr rootBody
           | Some resourceSchema \<Rightarrow>
               (let variableName = deriveVariableName Plural (Name resource) in
                case Schema_Block resourceSchema of
                  None \<Rightarrow> Inl NilPointerDereference
                | Some block \<Rightarrow>
                    if Mode resource = ''multiple'' then
                      (case handleAttributesAndNestedBlocksForVariable
                              (SetAttributeRaw [] ''type'' ''list(object({'')
                              (Attributes block) (NestedBlocks block) 1 True descAsCommentsFlag of
                         Inl p \<Rightarrow> Inl p
                       | Inr filled \<Rightarrow>
                           Inr (rootBody @
                                [BlockNode ''variable'' [variableName]
                                   (SetAttributeRaw
                                      (filled @
                                         [UnstructuredTokens
                                            [Token TokenIdent ''}))'', newlineToken]])
                                      ''default'' ''null''),
                                 Newline]))
                    else
                      variableItems rootBody block descAsCommentsFlag
                        (sort (map fst (Attributes block) @ map fst (NestedBlocks block))))))"

fun variablesResources ::
  "(string \<Rightarrow> string) \<Rightarrow> (string \<times> ProviderSchema) list \<Rightarrow> bool \<Rightarrow> node list
     \<Rightarrow> Resource list \<Rightarrow> panic + node list" where
  "variablesResources Plural cleanedSchema descAsCommentsFlag rootBody [] = Inr rootBody"
| "variablesResources Plural cleanedSchema descAsCommentsFlag rootBody (resource # rest) =
     (case variablesResource Plural cleanedSchema descAsCommentsFlag rootBody resource of
        Inl p \<Rightarrow> Inl p
      | Inr rootBody' \<Rightarrow>
          variablesResources Plural cleanedSchema descAsCommentsFlag rootBody' rest)"

definition CreateVariablesTF ::
  "(string \<Rightarrow> string) \<Rightarrow> (string \<times> ProviderSchema) list \<Rightarrow> Resource list \<Rightarrow> bool
     \<Rightarrow> panic + node list option" where
  "CreateVariablesTF Plural cleanedSchema resources descAsCommentsFlag =
     (if length resources = 0 then Inr None
      else (case variablesResources Plural cleanedSchema descAsCommentsFlag [] resources of
              Inl p \<Rightarrow> Inl p
            | Inr rootBody \<Rightarrow> Inr (Some rootBody)))"

text \<open>Reading a generated body: the expression of the attribute of a given name.\<close>

fun attributeOf :: "node list \<Rightarrow> string \<Rightarrow> expression option" where
  "attributeOf [] name = None"
| "attributeOf (Attribute n e # rest) name = (if n = name then Some e else attributeOf rest name)"
| "attributeOf (x # rest) name = attributeOf rest name"

fun isAttribute :: "node \<Rightarrow> bool" where
  "isAttribute (Attribute n e) = True"
| "isAttribute x = False"

text \<open>
  The resource of the claims' example: \<open>aws_instance\<close> with a required string
  \<open>ami\<close> and an optional \<open>tags\<close> of type map(string).
\<close>

definition hashicorpAws :: Provider where
  "hashicorpAws =
     \<lparr>Namespace = ''hashicorp'', ProviderName = ''aws'', Version = ''>= 3.0'',
      NamespaceLower = ''hashicorp'', NameLower = ''aws''\<rparr>"

definition awsInstance :: "string \<Rightarrow> Resource" where
  "awsInstance mode = \<lparr>Name = ''aws_instance'', Mode = mode, Provider = hashicorpAws\<rparr>"

definition amiTagsSchema :: "(string \<times> ProviderSchema) list" where
  "amiTagsSchema =
     [(''registry.terraform.io/hashicorp/aws'', \<lparr>ResourceSchemas =
        [(''aws_instance'', \<lparr>Schema_Block = Some (SchemaBlock
            [(''tags'', Some \<lparr>AttributeType = cty_Map cty_String, Description = [],
                              Required = False, Optional = True, Computed = False\<rparr>),
             (''ami'', Some \<lparr>AttributeType = cty_String, Description = [],
                             Required = True, Optional = False, Computed = False\<rparr>)]
            [] [])\<rparr>)]\<rparr>)]"

text \<open>
  A resource whose only item is the nested block \<open>root_block\<close> of nesting mode
  \<open>single\<close> with no bound on the number of items, as in \<open>TestCreateMainTF\<close>.
\<close>

definition rootBlockType :: SchemaBlockType where
  "rootBlockType =
     SchemaBlockType ''single''
       (Some (SchemaBlock
          [(''block_attribute'', Some \<lparr>AttributeType = cty_Number, Description = [],
                                       Required = False, Optional = True, Computed = False\<rparr>)]
          [] []))
       0 0"

definition rootBlockSchema :: "(string \<times> ProviderSchema) list" where
  "rootBlockSchema =
     [(''registry.terraform.io/hashicorp/aws'', \<lparr>ResourceSchemas =
        [(''aws_instance'', \<lparr>Schema_Block = Some (SchemaBlock []
            [(''root_block'', Some rootBlockType)] [])\<rparr>)]\<rparr>)]"

section \<open>Computed-only exclusion\<close>

lemma removeComputedOnly_Inr:
  "removeComputedOnly attrs = Inr attrs' \<Longrightarrow>
     \<not> attrsHaveComputedOnly attrs' \<and> removeComputedOnly attrs' = Inr attrs'"
  by (induction attrs arbitrary: attrs' rule: removeComputedOnly.induct)
     (auto split: sum.splits if_splits)

lemma removeComputedOnly_total:
  "list_all (\<lambda>(n, a). a \<noteq> None) attrs \<Longrightarrow> removeComputedOnly attrs = Inl p \<Longrightarrow> False"
  by (induction attrs rule: removeComputedOnly.induct) (auto split: sum.splits if_splits)

lemma removeFromBlock_Inr:
  "(\<forall>b'. RemoveComputedAttributesFromBlock b = Inr b' \<longrightarrow>
       \<not> blockHasComputedOnly b' \<and> RemoveComputedAttributesFromBlock b' = Inr b')"
  "(\<forall>nbs'. removeFromNestedBlocks nbs = Inr nbs' \<longrightarrow>
       \<not> nestedHaveComputedOnly nbs' \<and> removeFromNestedBlocks nbs' = Inr nbs')"
  by (induction b and nbs rule: RemoveComputedAttributesFromBlock_removeFromNestedBlocks.induct)
     (auto split: sum.splits dest: removeComputedOnly_Inr)

lemma removeFromBlock_total:
  "blockNilFree b \<longrightarrow> (\<forall>p. RemoveComputedAttributesFromBlock b \<noteq> Inl p)"
  "nestedNilFree nbs \<longrightarrow> (\<forall>p. removeFromNestedBlocks nbs \<noteq> Inl p)"
  by (induction b and nbs rule: blockNilFree_nestedNilFree.induct)
     (auto split: sum.splits simp del: not_None_eq dest: removeComputedOnly_total)

lemma removeComputedFromResource_Inr:
  "removeComputedFromResource r = Inr r' \<Longrightarrow>
     \<not> blockHasComputedOnly (Schema_Block r') \<and> removeComputedFromResource r' = Inr r'"
  using removeFromBlock_Inr(2) removeComputedOnly_Inr
  by (cases "Schema_Block r") (auto split: sum.splits SchemaBlock.splits option.splits)

lemma removeComputedFromResource_total:
  "blockNilFree (Schema_Block r) \<Longrightarrow> removeComputedFromResource r = Inl p \<Longrightarrow> False"
  using removeFromBlock_total(2) removeComputedOnly_total
  by (cases "Schema_Block r") (auto split: sum.splits SchemaBlock.splits option.splits simp del: not_None_eq)

lemma removeComputedFromResources_Inr:
  "removeComputedFromResources rs = Inr rs' \<Longrightarrow>
     \<not> list_ex (\<lambda>(resourceName, resourceSchema). blockHasComputedOnly (Schema_Block resourceSchema)) rs'
     \<and> removeComputedFromResources rs' = Inr rs'"
proof (induction rs arbitrary: rs' rule: removeComputedFromResources.induct)
  case 1
  then show ?case by simp
next
  case (2 resourceName resourceSchema rest)
  from "2.prems" obtain r' rest' where
    r: "removeComputedFromResource resourceSchema = Inr r'" and
    rest: "removeComputedFromResources rest = Inr rest'" and
    rs': "rs' = (resourceName, r') # rest'"
    by (auto split: sum.splits)
  from "2.IH"[OF r rest] removeComputedFromResource_Inr[OF r] rs'
  show ?case by simp
qed

lemma removeComputedFromResources_total:
  "list_all (\<lambda>(resourceName, resourceSchema). blockNilFree (Schema_Block resourceSchema)) rs \<Longrightarrow>
   removeComputedFromResources rs = Inl p \<Longrightarrow> False"
proof (induction rs rule: removeComputedFromResources.induct)
  case 1
  then show ?case by simp
next
  case (2 resourceName resourceSchema rest)
  then show ?case
    by (auto split: sum.splits dest: removeComputedFromResource_total)
qed

lemma removeComputedFromProviders_Inr:
  "removeComputedFromProviders ps = Inr ps' \<Longrightarrow>
     \<not> list_ex (\<lambda>(providerKey, providerSchema).
        list_ex (\<lambda>(resourceName, resourceSchema). blockHasComputedOnly (Schema_Block resourceSchema))
          (ResourceSchemas providerSchema)) ps'
     \<and> removeComputedFromProviders ps' = Inr ps'"
proof (induction ps arbitrary: ps' rule: removeComputedFromProviders.induct)
  case 1
  then show ?case by simp
next
  case (2 providerKey providerSchema rest)
  from "2.prems" obtain rs' rest' where
    r: "removeComputedFromResources (ResourceSchemas providerSchema) = Inr rs'" and
    rest: "removeComputedFromProviders rest = Inr rest'" and
    ps': "ps' = (providerKey, providerSchema\<lparr>ResourceSchemas := rs'\<rparr>) # rest'"
    by (auto split: sum.splits)
  from "2.IH"[OF r rest] removeComputedFromResources_Inr[OF r] ps'
  show ?case by simp
qed

lemma removeComputedFromProviders_total:
  "list_all (\<lambda>(providerKey, providerSchema).
        list_all (\<lambda>(resourceName, resourceSchema). blockNilFree (Schema_Block resourceSchema))
          (ResourceSchemas providerSchema)) ps \<Longrightarrow>
   removeComputedFromProviders ps = Inl p \<Longrightarrow> False"
proof (induction ps rule: removeComputedFromProviders.induct)
  case 1
  then show ?case by simp
next
  case (2 providerKey providerSchema rest)
  then show ?case
    by (auto split: sum.splits dest: removeComputedFromResources_total)
qed

text \<open>
  Claim C2. After \<open>RemoveComputedAttributes\<close> no attribute with computed = true,
  required = false and optional = false is left anywhere in the schema tree, at any depth
  of nested blocks, and a second application changes nothing. The function returns
  (does not panic) on every schema without nil attribute and block-type pointers.
\<close>

theorem RemoveComputedAttributes_removes_and_idempotent:
  "(schemasNilFree providerSchemas \<longrightarrow>
      (\<exists>cleaned. RemoveComputedAttributes providerSchemas = Inr cleaned)) \<and>
   (\<forall>cleaned. RemoveComputedAttributes providerSchemas = Inr cleaned \<longrightarrow>
      \<not> schemasHaveComputedOnly cleaned \<and> RemoveComputedAttributes cleaned = Inr cleaned)"
proof (intro conjI impI allI)
  assume "schemasNilFree providerSchemas"
  then have "\<And>p. removeComputedFromProviders (Schemas providerSchemas) \<noteq> Inl p"
    using removeComputedFromProviders_total unfolding schemasNilFree_def by blast
  then show "\<exists>cleaned. RemoveComputedAttributes providerSchemas = Inr cleaned"
    unfolding RemoveComputedAttributes_def by (auto split: sum.splits)
next
  fix cleaned
  assume a: "RemoveComputedAttributes providerSchemas = Inr cleaned"
  then obtain ss' where
    ss: "removeComputedFromProviders (Schemas providerSchemas) = Inr ss'" and
    c: "cleaned = providerSchemas\<lparr>Schemas := ss'\<rparr>"
    unfolding RemoveComputedAttributes_def by (auto split: sum.splits)
  from removeComputedFromProviders_Inr[OF ss] c
  show "\<not> schemasHaveComputedOnly cleaned"
    unfolding schemasHaveComputedOnly_def by simp
  from removeComputedFromProviders_Inr[OF ss] c
  show "RemoveComputedAttributes cleaned = Inr cleaned"
    unfolding RemoveComputedAttributes_def by simp
qed


theorem RemoveComputedAttributes_witness:
  "schemasNilFree testComputedSchemas \<and>
   schemasHaveComputedOnly testComputedSchemas \<and>
   RemoveComputedAttributes testComputedSchemas = Inr expectedComputedSchemas \<and>
   \<not> schemasHaveComputedOnly expectedComputedSchemas \<and>
   RemoveComputedAttributes expectedComputedSchemas = Inr expectedComputedSchemas"
proof -
  have run: "RemoveComputedAttributes testComputedSchemas = Inr expectedComputedSchemas"
    by (simp add: RemoveComputedAttributes_def testComputedSchemas_def
        expectedComputedSchemas_def computedAttr_def computedOnly_def)
  have nil: "schemasNilFree testComputedSchemas"
    by (simp add: schemasNilFree_def testComputedSchemas_def computedAttr_def)
  have has: "schemasHaveComputedOnly testComputedSchemas"
    by (simp add: schemasHaveComputedOnly_def testComputedSchemas_def computedAttr_def
        computedOnly_def)
  from RemoveComputedAttributes_removes_and_idempotent [of testComputedSchemas] run nil has
  show ?thesis by blast
qed


section \<open>Repair convergence\<close>

lemma removeAttributes_filter:
  "removeAttributes attributes names = filter (\<lambda>(name, a). name \<notin> set names) attributes"
proof (induction attributes names rule: removeAttributes.induct)
  case (1 attributes)
  then show ?case by simp
next
  case (2 attributes attrName rest)
  have absent: "map_of attributes attrName = None \<Longrightarrow>
      filter (\<lambda>(name, a). name \<notin> set rest) attributes =
      filter (\<lambda>(name, a). name \<notin> set (attrName # rest)) attributes"
    by (rule filter_cong) (auto simp: map_of_eq_None_iff image_iff)
  show ?case
  proof (cases "map_of attributes attrName = None")
    case True
    with 2 absent show ?thesis by simp
  next
    case False
    with 2 show ?thesis by (auto intro: filter_cong)
  qed
qed

lemma selectInvalidAttributes_find:
  "selectInvalidAttributes v rk =
     (case find (\<lambda>(k, attrs). HasPrefix k rk) v of None \<Rightarrow> [] | Some (k, attrs) \<Rightarrow> attrs)"
  by (induction v rk rule: selectInvalidAttributes.induct) auto

text \<open>What the loop body does to a resource when it does not panic.\<close>

definition removedFrom :: "(string \<times> string list) list \<Rightarrow> string \<Rightarrow> Schema \<Rightarrow> Schema" where
  "removedFrom v rk r =
     (case Schema_Block r of
        None \<Rightarrow> r
      | Some b \<Rightarrow> r\<lparr>Schema_Block := Some (SchemaBlock
            (filter (\<lambda>(name, a). name \<notin> set (selectInvalidAttributes v rk)) (Attributes b))
            (NestedBlocks b) (BlockDescription b))\<rparr>)"

lemma removeInvalidFromResource_removedFrom:
  "selectInvalidAttributes v rk = [] \<or> Schema_Block r \<noteq> None \<Longrightarrow>
   removeInvalidFromResource v rk r = Inr (removedFrom v rk r)"
  by (cases "Schema_Block r")
     (auto simp: removeInvalidFromResource_def removedFrom_def Let_def removeAttributes_filter
           split: SchemaBlock.splits)

lemma removeInvalidFromResources_map:
  "list_all (\<lambda>(rk, r). selectInvalidAttributes v rk = [] \<or> Schema_Block r \<noteq> None) rs \<Longrightarrow>
   removeInvalidFromResources v rs = Inr (map (\<lambda>(rk, r). (rk, removedFrom v rk r)) rs)"
  by (induction v rs rule: removeInvalidFromResources.induct)
     (simp_all add: removeInvalidFromResource_removedFrom)

definition removedFromProvider :: "(string \<times> string list) list \<Rightarrow> ProviderSchema \<Rightarrow> ProviderSchema" where
  "removedFromProvider v p =
     p\<lparr>ResourceSchemas := map (\<lambda>(rk, r). (rk, removedFrom v rk r)) (ResourceSchemas p)\<rparr>"

lemma removeInvalidFromProviders_map:
  "rejectedHaveBlocks v ps \<Longrightarrow>
   removeInvalidFromProviders v ps = Inr (map (\<lambda>(pk, p). (pk, removedFromProvider v p)) ps)"
  unfolding rejectedHaveBlocks_def
  by (induction v ps rule: removeInvalidFromProviders.induct)
     (simp_all add: removeInvalidFromResources_map removedFromProvider_def)

lemma map_of_removedFromProvider:
  "map_of (map (\<lambda>(pk, p). (pk, removedFromProvider v p)) ps) pk =
     map_option (removedFromProvider v) (map_of ps pk)"
  by (induction ps) auto

lemma map_of_removedFrom:
  "map_of (map (\<lambda>(rk, r). (rk, removedFrom v rk r)) rs) rk =
     map_option (removedFrom v rk) (map_of rs rk)"
  by (induction rs) auto

lemma lookupAttributes_removed:
  assumes "lookupAttributes ps pk rk = Some attrs"
  shows "lookupAttributes (map (\<lambda>(pk, p). (pk, removedFromProvider v p)) ps) pk rk =
     Some (filter (\<lambda>(name, a). name \<notin> set (selectInvalidAttributes v rk)) attrs)"
proof -
  from assms obtain p r b where
    p: "map_of ps pk = Some p" and r: "map_of (ResourceSchemas p) rk = Some r" and
    b: "Schema_Block r = Some b" and a: "attrs = Attributes b"
    unfolding lookupAttributes_def by (auto split: option.splits)
  have p': "map_of (map (\<lambda>(pk, p). (pk, removedFromProvider v p)) ps) pk =
      Some (removedFromProvider v p)"
    by (simp add: map_of_removedFromProvider p)
  have r': "map_of (ResourceSchemas (removedFromProvider v p)) rk = Some (removedFrom v rk r)"
    by (simp add: removedFromProvider_def map_of_removedFrom r)
  have b': "Schema_Block (removedFrom v rk r) = Some (SchemaBlock
            (filter (\<lambda>(name, a). name \<notin> set (selectInvalidAttributes v rk)) (Attributes b))
            (NestedBlocks b) (BlockDescription b))"
    by (simp add: removedFrom_def b)
  show ?thesis
    unfolding lookupAttributes_def by (simp add: p' r' b' a)
qed

text \<open>
  Claim C5. When every resource for which rejected names are selected has a block, the
  function returns (it has no error result; an absent name is only logged), and the
  top-level attributes of each resource afterwards are the ones before without the names
  selected for it: a rejected name that exists is gone, one that does not exist changes
  nothing. The names selected for a resource key are those of the rejection-map entry
  visited first whose key has the resource key as a prefix.
\<close>

theorem RemoveInvalidAttributesFromSchema_removes_rejected:
  assumes "rejectedHaveBlocks validationErrors cleanedSchema"
  shows "\<exists>repaired.
     RemoveInvalidAttributesFromSchema cleanedSchema validationErrors = Inr repaired \<and>
     (\<forall>providerKey resourceKey attrs.
        lookupAttributes cleanedSchema providerKey resourceKey = Some attrs \<longrightarrow>
        lookupAttributes (Schemas repaired) providerKey resourceKey =
          Some (filter (\<lambda>(name, a).
                  name \<notin> set (selectInvalidAttributes validationErrors resourceKey)) attrs)) \<and>
     (\<forall>resourceKey. selectInvalidAttributes validationErrors resourceKey =
        (case find (\<lambda>(validationKey, attrs). take (length resourceKey) validationKey = resourceKey)
                validationErrors of
           None \<Rightarrow> [] | Some (validationKey, attrs) \<Rightarrow> attrs))"
  using removeInvalidFromProviders_map[OF assms] lookupAttributes_removed
    selectInvalidAttributes_find
  by (simp add: RemoveInvalidAttributesFromSchema_def HasPrefix_def)

theorem RemoveInvalidAttributesFromSchema_witness:
  "rejectedHaveBlocks testValidationErrors testInvalidSchemas \<and>
   (\<exists>repaired.
      RemoveInvalidAttributesFromSchema testInvalidSchemas testValidationErrors = Inr repaired \<and>
      lookupAttributes testInvalidSchemas ''hashicorp/aws'' ''aws_instance'' =
        Some [(''name'', stringAttr), (''type'', stringAttr)] \<and>
      lookupAttributes (Schemas repaired) ''hashicorp/aws'' ''aws_instance'' =
        Some [(''name'', stringAttr)])"
proof -
  have h: "rejectedHaveBlocks testValidationErrors testInvalidSchemas"
    by (simp add: rejectedHaveBlocks_def testValidationErrors_def testInvalidSchemas_def)
  have l: "lookupAttributes testInvalidSchemas ''hashicorp/aws'' ''aws_instance'' =
        Some [(''name'', stringAttr), (''type'', stringAttr)]"
    by (simp add: lookupAttributes_def testInvalidSchemas_def)
  have s: "selectInvalidAttributes testValidationErrors ''aws_instance'' =
        [''type'', ''nonexistent_attr'']"
    by (simp add: testValidationErrors_def HasPrefix_def)
  from RemoveInvalidAttributesFromSchema_removes_rejected [OF h] obtain repaired where
    r: "RemoveInvalidAttributesFromSchema testInvalidSchemas testValidationErrors = Inr repaired"
    and a: "\<And>providerKey resourceKey attrs.
        lookupAttributes testInvalidSchemas providerKey resourceKey = Some attrs \<Longrightarrow>
        lookupAttributes (Schemas repaired) providerKey resourceKey =
          Some (filter (\<lambda>(name, a).
                  name \<notin> set (selectInvalidAttributes testValidationErrors resourceKey)) attrs)"
    by blast
  from a[OF l] s
  have "lookupAttributes (Schemas repaired) ''hashicorp/aws'' ''aws_instance'' =
        Some [(''name'', stringAttr)]"
    by simp
  with h r l show ?thesis by blast
qed



section \<open>One rejection entry per resource\<close>

text \<open>Two rejection keys that both start with the resource key \<open>aws_instance\<close>.\<close>

definition overlappingErrors :: "(string \<times> string list) list" where
  "overlappingErrors =
     [(''aws_instance.this'', [''type'']), (''aws_instance_profile.this'', [''name''])]"

lemma removeInvalidFromResources_blocks:
  "removeInvalidFromResources v rs = Inr rs' \<Longrightarrow>
   list_all (\<lambda>(rk, r). selectInvalidAttributes v rk = [] \<or> Schema_Block r \<noteq> None) rs"
  by (induction v rs arbitrary: rs' rule: removeInvalidFromResources.induct)
     (auto simp: removeInvalidFromResource_def Let_def split: sum.splits option.splits if_splits)

lemma removeInvalidFromProviders_blocks:
  "removeInvalidFromProviders v ps = Inr ps' \<Longrightarrow> rejectedHaveBlocks v ps"
  unfolding rejectedHaveBlocks_def
  by (induction v ps arbitrary: ps' rule: removeInvalidFromProviders.induct)
     (auto split: sum.splits dest: removeInvalidFromResources_blocks)

lemma selectInvalidAttributes_entry:
  "(k, attrs) \<in> set v \<Longrightarrow> HasPrefix k rk \<Longrightarrow>
   \<exists>selectedKey. (selectedKey, selectInvalidAttributes v rk) \<in> set v \<and> HasPrefix selectedKey rk"
  by (induction v rk rule: selectInvalidAttributes.induct) auto

text \<open>
  Claim C10. At most one rejection-map entry is applied to a resource: when the function
  returns and some rejection key has the resource key as a prefix, there is one entry of
  the rejection map, with such a key, whose names are exactly the names deleted from the
  resource; an attribute named only under other entries (also ones whose key matches as
  well) is still in the schema. Which entry it is depends on the order of the visit.
\<close>

theorem RemoveInvalidAttributesFromSchema_single_entry:
  assumes run: "RemoveInvalidAttributesFromSchema cleanedSchema validationErrors = Inr repaired"
    and res: "lookupAttributes cleanedSchema providerKey resourceKey = Some attrs"
    and ent: "(someKey, someAttrs) \<in> set validationErrors"
    and pre: "HasPrefix someKey resourceKey"
  shows "\<exists>selectedKey selected.
     (selectedKey, selected) \<in> set validationErrors \<and> HasPrefix selectedKey resourceKey \<and>
     lookupAttributes (Schemas repaired) providerKey resourceKey =
       Some (filter (\<lambda>(name, a). name \<notin> set selected) attrs) \<and>
     (\<forall>otherKey others name a.
        (otherKey, others) \<in> set validationErrors \<and> name \<in> set others \<and>
        name \<notin> set selected \<and> (name, a) \<in> set attrs \<longrightarrow>
        (\<exists>attrs'. lookupAttributes (Schemas repaired) providerKey resourceKey = Some attrs' \<and>
                  (name, a) \<in> set attrs'))"
proof -
  from run obtain ss where
    ss: "removeInvalidFromProviders validationErrors cleanedSchema = Inr ss" and
    rep: "repaired = \<lparr>FormatVersion = [], Schemas = ss\<rparr>"
    unfolding RemoveInvalidAttributesFromSchema_def by (auto split: sum.splits)
  from removeInvalidFromProviders_map[OF removeInvalidFromProviders_blocks[OF ss]] ss
  have ss_eq: "ss = map (\<lambda>(pk, p). (pk, removedFromProvider validationErrors p)) cleanedSchema"
    by simp
  let ?selected = "selectInvalidAttributes validationErrors resourceKey"
  from selectInvalidAttributes_entry[OF ent pre] obtain selectedKey where
    sel: "(selectedKey, ?selected) \<in> set validationErrors" "HasPrefix selectedKey resourceKey"
    by blast
  have look: "lookupAttributes (Schemas repaired) providerKey resourceKey =
       Some (filter (\<lambda>(name, a). name \<notin> set ?selected) attrs)"
    using lookupAttributes_removed[OF res] by (simp add: rep ss_eq)
  show ?thesis
    apply (rule exI[of _ selectedKey], rule exI[of _ ?selected])
    using sel look by auto
qed

theorem RemoveInvalidAttributesFromSchema_single_entry_witness:
  "(\<exists>repaired. RemoveInvalidAttributesFromSchema testInvalidSchemas overlappingErrors = Inr repaired) \<and>
   lookupAttributes testInvalidSchemas ''hashicorp/aws'' ''aws_instance'' =
     Some [(''name'', stringAttr), (''type'', stringAttr)] \<and>
   (''aws_instance_profile.this'', [''name'']) \<in> set overlappingErrors \<and>
   HasPrefix ''aws_instance_profile.this'' ''aws_instance'' \<and>
   (\<exists>repaired selectedKey selected.
      RemoveInvalidAttributesFromSchema testInvalidSchemas overlappingErrors = Inr repaired \<and>
      (selectedKey, selected) \<in> set overlappingErrors \<and> HasPrefix selectedKey ''aws_instance'' \<and>
      lookupAttributes (Schemas repaired) ''hashicorp/aws'' ''aws_instance'' =
        Some (filter (\<lambda>(name, a). name \<notin> set selected)
                [(''name'', stringAttr), (''type'', stringAttr)])) \<and>
   (\<exists>repaired.
      RemoveInvalidAttributesFromSchema testInvalidSchemas overlappingErrors = Inr repaired \<and>
      lookupAttributes (Schemas repaired) ''hashicorp/aws'' ''aws_instance'' =
        Some [(''name'', stringAttr)]) \<and>
   (\<exists>repaired.
      RemoveInvalidAttributesFromSchema testInvalidSchemas (rev overlappingErrors) = Inr repaired \<and>
      lookupAttributes (Schemas repaired) ''hashicorp/aws'' ''aws_instance'' =
        Some [(''type'', stringAttr)])"
proof -
  obtain repaired where
    run: "RemoveInvalidAttributesFromSchema testInvalidSchemas overlappingErrors = Inr repaired"
    by (simp add: RemoveInvalidAttributesFromSchema_def testInvalidSchemas_def
        overlappingErrors_def removeInvalidFromResource_def HasPrefix_def)
  have res: "lookupAttributes testInvalidSchemas ''hashicorp/aws'' ''aws_instance'' =
     Some [(''name'', stringAttr), (''type'', stringAttr)]"
    by (simp add: lookupAttributes_def testInvalidSchemas_def)
  have ent: "(''aws_instance_profile.this'', [''name'']) \<in> set overlappingErrors"
    by (simp add: overlappingErrors_def)
  have pre: "HasPrefix ''aws_instance_profile.this'' ''aws_instance''"
    by (simp add: HasPrefix_def)
  have fst: "\<exists>repaired.
      RemoveInvalidAttributesFromSchema testInvalidSchemas overlappingErrors = Inr repaired \<and>
      lookupAttributes (Schemas repaired) ''hashicorp/aws'' ''aws_instance'' =
        Some [(''name'', stringAttr)]"
    by (simp add: RemoveInvalidAttributesFromSchema_def testInvalidSchemas_def
        overlappingErrors_def removeInvalidFromResource_def HasPrefix_def lookupAttributes_def)
  have snd: "\<exists>repaired.
      RemoveInvalidAttributesFromSchema testInvalidSchemas (rev overlappingErrors) = Inr repaired \<and>
      lookupAttributes (Schemas repaired) ''hashicorp/aws'' ''aws_instance'' =
        Some [(''type'', stringAttr)]"
    by (simp add: RemoveInvalidAttributesFromSchema_def testInvalidSchemas_def
        overlappingErrors_def removeInvalidFromResource_def HasPrefix_def lookupAttributes_def)
  from RemoveInvalidAttributesFromSchema_single_entry [OF run res ent pre] run res ent pre fst snd
  show ?thesis by blast
qed



section \<open>The type renderer returns on every type\<close>

lemma getAttributeType_cases:
  "getAttributeType (cty_Primitive k) = Inr (FriendlyName k)"
  "getAttributeType (cty_List e) =
     (case getAttributeType e of Inl p \<Rightarrow> Inl p | Inr s \<Rightarrow> Inr (''list('' @ s @ '')''))"
  "getAttributeType (cty_Set e) =
     (case getAttributeType e of Inl p \<Rightarrow> Inl p | Inr s \<Rightarrow> Inr (''set('' @ s @ '')''))"
  "getAttributeType (cty_Map e) =
     (case getAttributeType e of Inl p \<Rightarrow> Inl p | Inr s \<Rightarrow> Inr (''map('' @ s @ '')''))"
  "getAttributeType (cty_Object atys) =
     (case writeFields atys of Inl p \<Rightarrow> Inl p
      | Inr written \<Rightarrow> Inr (''object({\<newline>'' @ written @ ''})''))"
  "getAttributeType (cty_Tuple ts) = Inr ''any''"
  "getAttributeType cty_DynamicPseudoType = Inr ''any''"
  "getAttributeType (cty_Capsule n) = Inr ''any''"
  "getAttributeType cty_NilType = Inr ''any''"
  by simp_all

lemma getAttributeType_returns:
  "\<exists>s. getAttributeType t = Inr s" "\<exists>s. writeFields atys = Inr s"
proof (induction t and atys rule: getAttributeType_writeFields.induct)
  case (1 attrType)
  show ?case
  proof (cases attrType)
    case (cty_List e)
    with 1(1)[of e] have "\<exists>s. getAttributeType e = Inr s" by simp
    with cty_List show ?thesis by (auto simp only: getAttributeType_cases sum.case)
  next
    case (cty_Set e)
    with 1(2)[of e] have "\<exists>s. getAttributeType e = Inr s" by simp
    with cty_Set show ?thesis by (auto simp only: getAttributeType_cases sum.case)
  next
    case (cty_Map e)
    with 1(3)[of e] have "\<exists>s. getAttributeType e = Inr s" by simp
    with cty_Map show ?thesis by (auto simp only: getAttributeType_cases sum.case)
  next
    case (cty_Object atys)
    with 1(4)[of atys] have "\<exists>s. writeFields atys = Inr s" by simp
    with cty_Object show ?thesis by (auto simp only: getAttributeType_cases sum.case)
  qed (simp_all only: getAttributeType_cases, simp_all)
next
  case 2
  show ?case by simp
next
  case (3 key val rest)
  from 3(1) obtain a where a: "getAttributeType val = Inr a" by blast
  from 3(2)[OF a] obtain f where "writeFields rest = Inr f" by blast
  with a show ?case by simp
qed

text \<open>
  Claim C7. For every type expression the renderer returns a string (none of the
  panicking accessors is reached on a type it does not fit): a primitive type renders as
  its name, \<open>list(T)\<close>, \<open>set(T)\<close> and \<open>map(T)\<close> as the wrapping syntax
  around the rendering of \<open>T\<close>, an object type as its block of fields, and every
  other type (tuple, dynamic, capsule, the absent type) as \<open>any\<close>.
\<close>

theorem getAttributeType_never_fails:
  "\<exists>s. getAttributeType t = Inr s \<and>
     (case t of
        cty_Primitive k \<Rightarrow>
          s = (case k of primitiveTypeString \<Rightarrow> ''string''
                | primitiveTypeNumber \<Rightarrow> ''number'' | primitiveTypeBool \<Rightarrow> ''bool'')
      | cty_List e \<Rightarrow> (\<exists>r. getAttributeType e = Inr r \<and> s = ''list('' @ r @ '')'')
      | cty_Set e \<Rightarrow> (\<exists>r. getAttributeType e = Inr r \<and> s = ''set('' @ r @ '')'')
      | cty_Map e \<Rightarrow> (\<exists>r. getAttributeType e = Inr r \<and> s = ''map('' @ r @ '')'')
      | cty_Object atys \<Rightarrow>
          (\<exists>w. writeFields atys = Inr w \<and> s = ''object({\<newline>'' @ w @ ''})'')
      | cty_Tuple ts \<Rightarrow> s = ''any''
      | cty_DynamicPseudoType \<Rightarrow> s = ''any''
      | cty_Capsule n \<Rightarrow> s = ''any''
      | cty_NilType \<Rightarrow> s = ''any'')"
proof (cases t)
  case (cty_Primitive k)
  then show ?thesis by (cases k) (simp_all only: getAttributeType_cases, simp_all)
next
  case (cty_List e)
  with getAttributeType_returns(1)[of e] show ?thesis
    by (auto simp only: getAttributeType_cases cty_Type.case sum.case)
next
  case (cty_Set e)
  with getAttributeType_returns(1)[of e] show ?thesis
    by (auto simp only: getAttributeType_cases cty_Type.case sum.case)
next
  case (cty_Map e)
  with getAttributeType_returns(1)[of e] show ?thesis
    by (auto simp only: getAttributeType_cases cty_Type.case sum.case)
next
  case (cty_Object atys)
  with getAttributeType_returns(2)[of atys] show ?thesis
    by (auto simp only: getAttributeType_cases cty_Type.case sum.case)
qed (simp_all only: getAttributeType_cases, simp_all)

theorem getAttributeType_witness:
  "getAttributeType (cty_List (cty_Map cty_String)) = Inr ''list(map(string))'' \<and>
   getAttributeType (cty_Set cty_NilType) = Inr ''set(any)''"
proof -
  have a: "getAttributeType (cty_Map cty_String) = Inr ''map(string)''"
    by simp
  have b: "getAttributeType cty_NilType = Inr ''any''"
    by simp
  from getAttributeType_never_fails [of "cty_List (cty_Map cty_String)"] a
    getAttributeType_never_fails [of "cty_Set cty_NilType"] b
  show ?thesis by auto
qed



section \<open>Diagnostic extraction\<close>

text \<open>A decoder for the witnesses: it rejects the text of the test's invalid input.\<close>

definition testUnmarshal :: "string \<Rightarrow> string + Diagnostic list" where
  "testUnmarshal jsonOutput =
     (if jsonOutput = ''INVALID_JSON''
      then Inl ''invalid character 'I' looking for beginning of value''
      else Inr [keyNameDiagnostic,
                keyNameDiagnostic\<lparr>Severity := ''warning''\<rparr>,
                keyNameDiagnostic\<lparr>Address := []\<rparr>,
                userDataDiagnostic])"

lemma processDiagnostic_skip:
  "\<not> (Severity d = ''error'' \<and> resolveAddress d \<noteq> None) \<Longrightarrow> processDiagnostic acc d = acc"
  by (auto simp: processDiagnostic_def)

lemma foldl_processDiagnostic_filter:
  "foldl processDiagnostic acc ds =
   foldl processDiagnostic acc (filter (\<lambda>d. Severity d = ''error'' \<and> resolveAddress d \<noteq> None) ds)"
proof (induction ds arbitrary: acc)
  case Nil
  show ?case by simp
next
  case (Cons d ds)
  show ?case
  proof (cases "Severity d = ''error'' \<and> resolveAddress d \<noteq> None")
    case True
    with Cons[of "processDiagnostic acc d"] show ?thesis by simp
  next
    case False
    with Cons[of acc] processDiagnostic_skip[OF False, of acc] show ?thesis by simp
  qed
qed

text \<open>
  Claim C8. \<open>ParseValidationErrorsFromJSON\<close> returns an error exactly when
  \<open>json.Unmarshal\<close> rejects the input, and then the map it returns is nil; on every
  input that decodes it returns a map (possibly empty) and no error, and the map is the
  one obtained from the diagnostics of severity \<open>error\<close> that yield an address alone:
  the others contribute nothing.
\<close>

theorem ParseValidationErrorsFromJSON_error_iff_unparsable:
  "(\<forall>err. unmarshal jsonOutput = Inl err \<longrightarrow>
      ParseValidationErrorsFromJSON unmarshal jsonOutput =
        (None, Some (''failed to parse JSON output from terraform validate: '' @ err))) \<and>
   (\<forall>diagnostics. unmarshal jsonOutput = Inr diagnostics \<longrightarrow>
      ParseValidationErrorsFromJSON unmarshal jsonOutput =
        (Some (foldl processDiagnostic Map.empty
           (filter (\<lambda>d. Severity d = ''error'' \<and> resolveAddress d \<noteq> None) diagnostics)), None)) \<and>
   (snd (ParseValidationErrorsFromJSON unmarshal jsonOutput) \<noteq> None \<longleftrightarrow>
      (\<exists>err. unmarshal jsonOutput = Inl err)) \<and>
   (fst (ParseValidationErrorsFromJSON unmarshal jsonOutput) = None \<longleftrightarrow>
      snd (ParseValidationErrorsFromJSON unmarshal jsonOutput) \<noteq> None)"
  using foldl_processDiagnostic_filter[of Map.empty]
  by (cases "unmarshal jsonOutput") (simp_all add: ParseValidationErrorsFromJSON_def)

theorem ParseValidationErrorsFromJSON_witness:
  "ParseValidationErrorsFromJSON testUnmarshal ''INVALID_JSON'' =
     (None, Some (''failed to parse JSON output from terraform validate: '' @
                  ''invalid character 'I' looking for beginning of value'')) \<and>
   (\<exists>invalidKeys.
      ParseValidationErrorsFromJSON testUnmarshal ''{}'' = (Some invalidKeys, None) \<and>
      invalidKeys ''aws_instance.example'' = Some [''key_name'', ''user_data''])"
proof -
  have a: "testUnmarshal ''INVALID_JSON'' =
      Inl ''invalid character 'I' looking for beginning of value''"
    by (simp add: testUnmarshal_def)
  have b: "testUnmarshal ''{}'' = Inr [keyNameDiagnostic,
                keyNameDiagnostic\<lparr>Severity := ''warning''\<rparr>,
                keyNameDiagnostic\<lparr>Address := []\<rparr>,
                userDataDiagnostic]"
    by (simp add: testUnmarshal_def)
  have r1: "resolveAddress keyNameDiagnostic = Some ''aws_instance.example''"
    by (simp add: resolveAddress_def keyNameDiagnostic_def)
  have r2: "resolveAddress (keyNameDiagnostic\<lparr>Address := []\<rparr>) = None"
    by (simp add: resolveAddress_def keyNameDiagnostic_def)
  have r3: "resolveAddress userDataDiagnostic = Some ''aws_instance.example''"
    by (simp add: resolveAddress_def userDataDiagnostic_def resourceAt_def stripPrefix_def
        HasPrefix_def skipSpaces1_def quoted1_def isRegexSpace_def)
  have e1: "extractAttribute keyNameDiagnostic = Some ''key_name''"
    by (simp add: extractAttribute_def keyNameDiagnostic_def matchCantConfigure_def
        matchCannotBeSet_def stripPrefix_def HasPrefix_def)
  have e3: "extractAttribute userDataDiagnostic = Some ''user_data''"
    by (simp add: extractAttribute_def userDataDiagnostic_def matchCantConfigure_def
        stripPrefix_def HasPrefix_def)
  have s1: "Severity keyNameDiagnostic = ''error''" "Severity userDataDiagnostic = ''error''"
    by (simp_all add: keyNameDiagnostic_def userDataDiagnostic_def)
  have f: "foldl processDiagnostic Map.empty
           (filter (\<lambda>d. Severity d = ''error'' \<and> resolveAddress d \<noteq> None)
              [keyNameDiagnostic, keyNameDiagnostic\<lparr>Severity := ''warning''\<rparr>,
               keyNameDiagnostic\<lparr>Address := []\<rparr>, userDataDiagnostic]) ''aws_instance.example''
         = Some [''key_name'', ''user_data'']"
    by (simp add: r1 r2 r3 s1 e1 e3 processDiagnostic_def appendKey_def)
  from ParseValidationErrorsFromJSON_error_iff_unparsable [of testUnmarshal "''INVALID_JSON''"] a
  have c1: "ParseValidationErrorsFromJSON testUnmarshal ''INVALID_JSON'' =
     (None, Some (''failed to parse JSON output from terraform validate: '' @
                  ''invalid character 'I' looking for beginning of value''))"
    by simp
  from ParseValidationErrorsFromJSON_error_iff_unparsable [of testUnmarshal "''{}''"] b
  have c2: "ParseValidationErrorsFromJSON testUnmarshal ''{}'' =
        (Some (foldl processDiagnostic Map.empty
           (filter (\<lambda>d. Severity d = ''error'' \<and> resolveAddress d \<noteq> None)
              [keyNameDiagnostic, keyNameDiagnostic\<lparr>Severity := ''warning''\<rparr>,
               keyNameDiagnostic\<lparr>Address := []\<rparr>, userDataDiagnostic])), None)"
    by simp
  from c1 c2 f show ?thesis by simp
qed











section \<open>Cleanup idempotence\<close>

text \<open>Lines and texts.\<close>

lemma joinLines_splitLines: "joinLines (splitLines s) = s"
  by (induction s) (auto simp: joinLines_def split: prod.splits list.splits)

lemma splitLines_newline_free:
  "splitLines s = (ls, final) \<Longrightarrow> (\<forall>l \<in> set ls. CHR 0x0A \<notin> set l) \<and> CHR 0x0A \<notin> set final"
  by (induction s arbitrary: ls final) (auto split: prod.splits list.splits if_splits)

lemma splitLines_append_line:
  "CHR 0x0A \<notin> set l \<Longrightarrow> splitLines (l @ CHR 0x0A # s) = (l # fst (splitLines s), snd (splitLines s))"
  by (induction l) (auto split: prod.splits)

lemma splitLines_final: "CHR 0x0A \<notin> set final \<Longrightarrow> splitLines final = ([], final)"
  by (induction final) auto

lemma splitLines_joinLines:
  "\<forall>l \<in> set ls. CHR 0x0A \<notin> set l \<Longrightarrow> CHR 0x0A \<notin> set final \<Longrightarrow>
   splitLines (joinLines (ls, final)) = (ls, final)"
  by (induction ls) (auto simp: joinLines_def splitLines_final splitLines_append_line)

text \<open>The substitutions keep lines free of newlines.\<close>

lemma set_collapseRuns: "set (collapseRuns ls) \<subseteq> insert [] (set ls)"
proof (induction ls rule: collapseRuns.induct)
  case 1
  show ?case by simp
next
  case (2 l ls)
  have "set (dropWhile isBlank ls) \<subseteq> set ls" by (auto dest: set_dropWhileD)
  with 2 show ?case by (auto split: if_splits)
qed

lemma set_removeBeforeBrace: "set (removeBeforeBrace ls final) \<subseteq> set ls"
proof (induction ls final rule: removeBeforeBrace.induct)
  case (1 final)
  show ?case by simp
next
  case (2 l ls final)
  let ?rest = "dropWhile isBlank ls"
  let ?following = "case ?rest of [] \<Rightarrow> final | x # xs \<Rightarrow> x"
  have d: "set ?rest \<subseteq> set ls" by (auto dest: set_dropWhileD)
  have t: "set (takeWhile isBlank ls) \<subseteq> set ls" by (auto dest: set_takeWhileD)
  show ?case
  proof (cases "isBlank l")
    case False
    with "2.IH"(3) show ?thesis by auto
  next
    case True
    show ?thesis
    proof (cases "startsWithBrace ?following")
      case b: True
      from "2.IH"(1)[OF True refl refl b] d True b show ?thesis
        by (auto simp: Let_def)
    next
      case nb: False
      from "2.IH"(2)[OF True refl refl nb] d t True nb show ?thesis
        by (auto simp: Let_def)
    qed
  qed
qed

text \<open>No two blank lines in a row.\<close>

definition headNotBlank :: "string list \<Rightarrow> bool" where
  "headNotBlank ls \<longleftrightarrow> (case ls of [] \<Rightarrow> True | l # rest \<Rightarrow> \<not> isBlank l)"

fun noDoubleBlank :: "string list \<Rightarrow> bool" where
  "noDoubleBlank [] = True"
| "noDoubleBlank (l # ls) = ((isBlank l \<longrightarrow> headNotBlank ls) \<and> noDoubleBlank ls)"

lemma headNotBlank_dropWhile: "headNotBlank (dropWhile isBlank ls)"
  by (induction ls) (auto simp: headNotBlank_def)

lemma headNotBlank_takeWhile: "headNotBlank ls \<Longrightarrow> takeWhile isBlank ls = []"
  by (cases ls) (auto simp: headNotBlank_def)

lemma headNotBlank_dropWhile_id: "headNotBlank ls \<Longrightarrow> dropWhile isBlank ls = ls"
  by (cases ls) (auto simp: headNotBlank_def)

lemma headNotBlank_collapseRuns: "headNotBlank ls \<Longrightarrow> headNotBlank (collapseRuns ls)"
  by (cases ls) (auto simp: headNotBlank_def)

lemma headNotBlank_removeBeforeBrace:
  "headNotBlank ls \<Longrightarrow> headNotBlank (removeBeforeBrace ls final)"
  by (cases ls) (auto simp: headNotBlank_def)

lemma isBlank_Nil: "isBlank []"
  by (simp add: isBlank_def)

lemma noDoubleBlank_collapseRuns: "noDoubleBlank (collapseRuns ls)"
proof (induction ls rule: collapseRuns.induct)
  case 1
  show ?case by simp
next
  case (2 l ls)
  show ?case
  proof (cases "isBlank l")
    case False
    with 2 show ?thesis by simp
  next
    case True
    show ?thesis
    proof (cases "takeWhile isBlank ls = []")
      case t: True
      then have "headNotBlank ls" by (cases ls) (auto simp: headNotBlank_def split: if_splits)
      with 2 True t show ?thesis by (simp add: headNotBlank_collapseRuns)
    next
      case f: False
      with 2 True show ?thesis
        by (simp add: headNotBlank_collapseRuns headNotBlank_dropWhile)
    qed
  qed
qed

lemma collapseRuns_id: "noDoubleBlank ls \<Longrightarrow> collapseRuns ls = ls"
  by (induction ls rule: collapseRuns.induct) (auto simp: headNotBlank_takeWhile)

lemma noDoubleBlank_removeBeforeBrace:
  "noDoubleBlank ls \<Longrightarrow> noDoubleBlank (removeBeforeBrace ls final)"
proof (induction ls final rule: removeBeforeBrace.induct)
  case (1 final)
  show ?case by simp
next
  case (2 l ls final)
  show ?case
  proof (cases "isBlank l")
    case False
    with 2 show ?thesis by simp
  next
    case True
    with "2.prems" have h: "headNotBlank ls" and n: "noDoubleBlank ls" by simp_all
    from h have d: "dropWhile isBlank ls = ls" and t: "takeWhile isBlank ls = []"
      by (simp_all add: headNotBlank_dropWhile_id headNotBlank_takeWhile)
    from 2 True n d t h show ?thesis
      by (auto simp: Let_def headNotBlank_removeBeforeBrace)
  qed
qed

lemma removeBeforeBrace_run:
  assumes "isBlank l" "list_all isBlank run" "headNotBlank rest"
  shows "removeBeforeBrace (l # run @ rest) final =
     (if startsWithBrace (case rest of [] \<Rightarrow> final | x # xs \<Rightarrow> x)
      then removeBeforeBrace rest final
      else (l # run) @ removeBeforeBrace rest final)"
proof -
  from assms(2,3) have d: "dropWhile isBlank (run @ rest) = rest"
    by (induction run) (auto simp: headNotBlank_dropWhile_id)
  from assms(2,3) have t: "takeWhile isBlank (run @ rest) = run"
    by (induction run) (auto simp: headNotBlank_takeWhile)
  from assms(1) d t show ?thesis by (simp add: Let_def)
qed

lemma following_removeBeforeBrace:
  "headNotBlank rest \<Longrightarrow>
   (case removeBeforeBrace rest final of [] \<Rightarrow> final | x # xs \<Rightarrow> x) =
   (case rest of [] \<Rightarrow> final | x # xs \<Rightarrow> x)"
  by (cases rest) (auto simp: headNotBlank_def)

lemma removeBeforeBrace_idem:
  "removeBeforeBrace (removeBeforeBrace ls final) final = removeBeforeBrace ls final"
proof (induction ls final rule: removeBeforeBrace.induct)
  case (1 final)
  show ?case by simp
next
  case (2 l ls final)
  show ?case
  proof (cases "isBlank l")
    case False
    with 2 show ?thesis by simp
  next
    case True
    let ?rest = "dropWhile isBlank ls"
    let ?run = "takeWhile isBlank ls"
    let ?following = "case ?rest of [] \<Rightarrow> final | x # xs \<Rightarrow> x"
    have hr: "headNotBlank ?rest" by (rule headNotBlank_dropWhile)
    have ar: "list_all isBlank ?run" by (induction ls) auto
    show ?thesis
    proof (cases "startsWithBrace ?following")
      case b: True
      with 2 True show ?thesis by (simp add: Let_def)
    next
      case nb: False
      from True nb have step: "removeBeforeBrace (l # ls) final = (l # ?run) @ removeBeforeBrace ?rest final"
        by (simp add: Let_def)
      have h2: "headNotBlank (removeBeforeBrace ?rest final)"
        using hr by (rule headNotBlank_removeBeforeBrace)
      have ih: "removeBeforeBrace (removeBeforeBrace ?rest final) final = removeBeforeBrace ?rest final"
        using "2.IH"(2)[OF True refl refl nb] .
      have "removeBeforeBrace (l # ?run @ removeBeforeBrace ?rest final) final =
          (l # ?run) @ removeBeforeBrace (removeBeforeBrace ?rest final) final"
        using removeBeforeBrace_run[OF True ar h2, of final] nb
          following_removeBeforeBrace[OF hr, of final] by simp
      with step ih show ?thesis by simp
    qed
  qed
qed

lemma cleanup_lines_idem:
  "removeBeforeBrace (collapseRuns (removeBeforeBrace (collapseRuns ls) final)) final =
   removeBeforeBrace (collapseRuns ls) final"
  using collapseRuns_id[OF noDoubleBlank_removeBeforeBrace[OF noDoubleBlank_collapseRuns]]
  by (simp add: removeBeforeBrace_idem)

lemma splitLines_collapseBlankLines:
  "splitLines (collapseBlankLines s) = (collapseRuns (fst (splitLines s)), snd (splitLines s))"
proof -
  obtain ls final where s: "splitLines s = (ls, final)" by (cases "splitLines s")
  from splitLines_newline_free[OF s] set_collapseRuns[of ls]
  have "\<forall>l \<in> set (collapseRuns ls). CHR 0x0A \<notin> set l" "CHR 0x0A \<notin> set final" by auto
  then show ?thesis
    unfolding collapseBlankLines_def by (simp add: s splitLines_joinLines)
qed

lemma splitLines_removeBlankBeforeBrace:
  "splitLines (removeBlankBeforeBrace s) =
     (removeBeforeBrace (fst (splitLines s)) (snd (splitLines s)), snd (splitLines s))"
proof -
  obtain ls final where s: "splitLines s = (ls, final)" by (cases "splitLines s")
  from splitLines_newline_free[OF s] set_removeBeforeBrace[of ls final]
  have "\<forall>l \<in> set (removeBeforeBrace ls final). CHR 0x0A \<notin> set l" "CHR 0x0A \<notin> set final" by auto
  then show ?thesis
    unfolding removeBlankBeforeBrace_def by (simp add: s splitLines_joinLines)
qed

lemma cleanupContent_idem: "cleanupContent (cleanupContent s) = cleanupContent s"
proof -
  have a: "splitLines (cleanupContent s) =
      (removeBeforeBrace (collapseRuns (fst (splitLines s))) (snd (splitLines s)), snd (splitLines s))"
    unfolding cleanupContent_def
    by (simp add: splitLines_removeBlankBeforeBrace splitLines_collapseBlankLines)
  have "cleanupContent (cleanupContent s) =
      joinLines (removeBeforeBrace (collapseRuns (fst (splitLines (cleanupContent s))))
                   (snd (splitLines (cleanupContent s))), snd (splitLines (cleanupContent s)))"
    unfolding cleanupContent_def[of "cleanupContent s"] removeBlankBeforeBrace_def
    by (simp add: splitLines_collapseBlankLines)
  also have "\<dots> = joinLines (removeBeforeBrace (collapseRuns (fst (splitLines s))) (snd (splitLines s)),
        snd (splitLines s))"
    by (simp add: a cleanup_lines_idem)
  also have "\<dots> = cleanupContent s"
    unfolding cleanupContent_def removeBlankBeforeBrace_def
    by (simp add: splitLines_collapseBlankLines)
  finally show ?thesis .
qed

lemma cleanupHCLFile_eq: "cleanupHCLFile body = cleanupContent body @ [CHR 0x0A]"
proof -
  have "concat (map (\<lambda>line. line @ [CHR 0x0A]) (Split_newline t)) = t @ [CHR 0x0A]" for t
    using joinLines_splitLines[of t]
    by (simp add: Split_newline_def joinLines_def)
  then show ?thesis by (simp add: cleanupHCLFile_def)
qed


text \<open>
  Claim C9, as stated, at the input \<open>a\<close>: \<open>cleanupHCLFile\<close> writes every piece of the
  split text back followed by a newline, also the last one, so the body after one
  application is \<open>a\<close> and a newline, and after two it has one newline more.
\<close>

theorem cleanupHCLFile_twice_counterexample:
  "cleanupHCLFile ''a'' = ''a\<newline>'' \<and>
   cleanupHCLFile (cleanupHCLFile ''a'') = ''a\<newline>\<newline>'' \<and>
   cleanupHCLFile (cleanupHCLFile ''a'') \<noteq> cleanupHCLFile ''a''"
  by (simp add: cleanupHCLFile_def Split_newline_def cleanupContent_def
      removeBlankBeforeBrace_def collapseBlankLines_def joinLines_def isBlank_def
      isRegexSpace_def)

text \<open>
  Claim C9, amended. The two substitutions of the cleanup pass (runs of two or more blank
  lines collapsed to one empty line, blank lines before a closing brace removed), as a
  function on the text, are idempotent; \<open>cleanupHCLFile\<close> leaves the substituted text
  followed by one newline.
\<close>

theorem cleanup_substitutions_idempotent:
  "cleanupContent (cleanupContent content) = cleanupContent content \<and>
   cleanupHCLFile content = cleanupContent content @ ''\<newline>''"
  using cleanupContent_idem cleanupHCLFile_eq by simp

text \<open>A text in the shape of the one in \<open>TestCleanupHCLFile\<close>.\<close>

definition testCleanupInput :: string where
  "testCleanupInput =
     ''resource {\<newline>  ami = 1\<newline>\<newline>\<newline>  dynamic {\<newline>    for_each = x\<newline>\<newline>\<newline>    content {\<newline>      a = b\<newline>    }\<newline>\<newline>\<newline>  }\<newline>\<newline>\<newline>}\<newline>\<newline>\<newline>''"

theorem cleanup_substitutions_witness:
  "cleanupContent testCleanupInput =
     ''resource {\<newline>  ami = 1\<newline>\<newline>  dynamic {\<newline>    for_each = x\<newline>\<newline>    content {\<newline>      a = b\<newline>    }\<newline>  }\<newline>}\<newline>\<newline>'' \<and>
   cleanupContent (cleanupContent testCleanupInput) = cleanupContent testCleanupInput"
proof -
  have "cleanupContent testCleanupInput =
     ''resource {\<newline>  ami = 1\<newline>\<newline>  dynamic {\<newline>    for_each = x\<newline>\<newline>    content {\<newline>      a = b\<newline>    }\<newline>  }\<newline>}\<newline>\<newline>''"
    by (simp add: testCleanupInput_def cleanupContent_def
      removeBlankBeforeBrace_def collapseBlankLines_def joinLines_def isBlank_def
      isRegexSpace_def startsWithBrace_def)
  with cleanup_substitutions_idempotent [of testCleanupInput] show ?thesis by simp
qed


end
